theory Spec2Isabelle
  imports Complex_Main "HOL-Library.Sublist"
begin

section \<open>Python values\<close>

text \<open>
  The values that flow through the client are decoded JSON documents and the arguments
  of the command methods. \<open>JNull\<close> is Python's \<open>None\<close>. A Python \<open>dict\<close> keeps its keys in
  insertion order, so it is an association list; \<open>JInt\<close> is Python's unbounded \<open>int\<close>.
  A \<open>float\<close> is represented by the rational number it denotes.
\<close>

datatype json =
    JNull
  | JBool bool
  | JInt int
  | JFloat rat
  | JStr string
  | JArr "json list"
  | JObj "(string \<times> json) list"

type_synonym pydict = "(string \<times> json) list"

datatype py_error =
    RequestException
  | TypeError
  | KeyError
  | IndexError
  | AttributeError
  | JSONDecodeError

text \<open>Truth value of an object, as tested by \<open>if config:\<close>.\<close>

fun truthy :: "json \<Rightarrow> bool" where
  "truthy JNull = False"
| "truthy (JBool b) = b"
| "truthy (JInt i) = (i \<noteq> 0)"
| "truthy (JFloat q) = (q \<noteq> 0)"
| "truthy (JStr s) = (s \<noteq> [])"
| "truthy (JArr xs) = (xs \<noteq> [])"
| "truthy (JObj d) = (d \<noteq> [])"

text \<open>\<open>d[k]\<close> on a dict: the value, or \<open>KeyError\<close>.\<close>

definition dict_get :: "pydict \<Rightarrow> string \<Rightarrow> py_error + json" where
  "dict_get d k = (case map_of d k of None \<Rightarrow> Inl KeyError | Some v \<Rightarrow> Inr v)"

text \<open>\<open>d[k] = v\<close> on a dict: an existing key keeps its position, a new key goes last.\<close>

fun dict_set :: "string \<Rightarrow> json \<Rightarrow> pydict \<Rightarrow> pydict" where
  "dict_set k v [] = [(k, v)]"
| "dict_set k v ((k', v') # d) =
     (if k' = k then (k, v) # d else (k', v') # dict_set k v d)"

text \<open>\<open>x[k]\<close> with a string key on any object: only a dict can be subscripted by a string.\<close>

fun getitem :: "json \<Rightarrow> string \<Rightarrow> py_error + json" where
  "getitem (JObj d) k = dict_get d k"
| "getitem _ k = Inl TypeError"

text \<open>\<open>x[k] = v\<close> with a string key on any object; the result is the updated dict.\<close>

fun setitem :: "json \<Rightarrow> string \<Rightarrow> json \<Rightarrow> py_error + pydict" where
  "setitem (JObj d) k v = Inr (dict_set k v d)"
| "setitem _ k v = Inl TypeError"

text \<open>\<open>for x in obj\<close>: a list gives its elements, a dict its keys, a string its characters.\<close>

fun py_iter :: "json \<Rightarrow> py_error + json list" where
  "py_iter (JArr xs) = Inr xs"
| "py_iter (JObj d) = Inr (map (\<lambda>kv. JStr (fst kv)) d)"
| "py_iter (JStr s) = Inr (map (\<lambda>c. JStr [c]) s)"
| "py_iter _ = Inl TypeError"

text \<open>\<open>'literal' + x\<close> and \<open>x + 'literal'\<close>: defined when \<open>x\<close> is a \<open>str\<close>.\<close>

fun str_concat :: "string \<Rightarrow> json \<Rightarrow> py_error + string" where
  "str_concat lit (JStr t) = Inr (lit @ t)"
| "str_concat lit _ = Inl TypeError"

fun concat_str :: "json \<Rightarrow> string \<Rightarrow> py_error + string" where
  "concat_str (JStr t) lit = Inr (t @ lit)"
| "concat_str _ lit = Inl TypeError"

text \<open>
  \<open>xs[index]\<close> on a list: the index is an \<open>int\<close> (a \<open>bool\<close> is one), a negative index
  counts from the end, and an index out of range raises \<open>IndexError\<close>.
\<close>

definition list_get :: "'a list \<Rightarrow> int \<Rightarrow> py_error + 'a" where
  "list_get xs i =
     (if 0 \<le> i \<and> i < int (length xs) then Inr (xs ! nat i)
      else if i < 0 \<and> - int (length xs) \<le> i then Inr (xs ! nat (int (length xs) + i))
      else Inl IndexError)"

fun list_index :: "'a list \<Rightarrow> json \<Rightarrow> py_error + 'a" where
  "list_index xs (JInt i) = list_get xs i"
| "list_index xs (JBool b) = list_get xs (if b then 1 else 0)"
| "list_index xs _ = Inl TypeError"

text \<open>
  \<open>round(x, 1)\<close>. An \<open>int\<close> is returned as it is (a \<open>bool\<close> as the \<open>int\<close> it is). A \<open>float\<close>
  is rounded to the nearest number with one decimal digit, a tie going to the even digit;
  the result stands for the decimal that \<open>json.dumps\<close> writes for the \<open>float\<close> Python
  returns. Anything else raises \<open>TypeError\<close>.
\<close>

definition round_half_even :: "rat \<Rightarrow> int" where
  "round_half_even q =
     (let f = \<lfloor>q\<rfloor>; d = q - of_int f
      in if d < 1 / 2 then f else if 1 / 2 < d then f + 1
         else if even f then f else f + 1)"

fun py_round1 :: "json \<Rightarrow> py_error + json" where
  "py_round1 (JInt i) = Inr (JInt i)"
| "py_round1 (JBool b) = Inr (JInt (if b then 1 else 0))"
| "py_round1 (JFloat q) = Inr (JFloat (of_int (round_half_even (q * 10)) / 10))"
| "py_round1 _ = Inl TypeError"

section \<open>The collaborators: configuration files and the HTTP transport\<close>

text \<open>
  A path names nothing, a regular file with its text, or something that is not a regular
  file and swallows what is written to it (a device such as \<open>/dev/null\<close>):
  \<open>os.path.isfile\<close> holds of a regular file only. \<open>write_denied\<close> and \<open>read_denied\<close> are
  the paths that \<open>open\<close> refuses with an \<open>IOError\<close> in mode \<open>'w'\<close> and \<open>'r'\<close> (a directory, a
  missing folder, missing rights).
\<close>

datatype fnode = Regular string | Special

record filesystem =
  nodes :: "string \<rightharpoonup> fnode"
  write_denied :: "string list"
  read_denied :: "string list"

definition isfile :: "filesystem \<Rightarrow> string \<Rightarrow> bool" where
  "isfile fs filename =
     (case nodes fs filename of Some (Regular text) \<Rightarrow> True | _ \<Rightarrow> False)"

definition read_text :: "filesystem \<Rightarrow> string \<Rightarrow> string" where
  "read_text fs filename =
     (case nodes fs filename of Some (Regular text) \<Rightarrow> text | _ \<Rightarrow> [])"

text \<open>
  The module \<open>json\<close> is taken as given: \<open>dumps\<close> writes a value as text, \<open>loads\<close> decodes a
  text, with \<open>None\<close> where \<open>json.loads\<close> raises. Nothing is assumed of the two; a property
  that needs \<open>json.loads(json.dumps(v)) == v\<close> says so.
\<close>

record json_module =
  dumps :: "json \<Rightarrow> string"
  loads :: "string \<Rightarrow> json option"

text \<open>\<open>config_from_file(filename, config=None)\<close>, lines 15-35.\<close>

definition config_from_file ::
  "json_module \<Rightarrow> string \<Rightarrow> json \<Rightarrow> filesystem \<Rightarrow> (py_error + json) \<times> filesystem" where
  "config_from_file lib filename config fs =
     (if truthy config then
        (if filename \<in> set (write_denied fs) then (Inr (JBool False), fs)
         else (case nodes fs filename of
                 Some Special \<Rightarrow> (Inr (JBool True), fs)
               | _ \<Rightarrow> (Inr (JBool True),
                        fs\<lparr>nodes := (nodes fs)(filename \<mapsto> Regular (dumps lib config))\<rparr>)))
      else
        (if isfile fs filename then
           (if filename \<in> set (read_denied fs) then (Inr (JBool False), fs)
            else (case loads lib (read_text fs filename) of
                    None \<Rightarrow> (Inl JSONDecodeError, fs)
                  | Some v \<Rightarrow> (Inr v, fs)))
         else (Inr (JObj []), fs)))"

text \<open>
  A response of the server: its status code and its body as \<open>request.json()\<close> decodes it
  (\<open>None\<close> when the body is not JSON, so that \<open>request.json()\<close> raises).
\<close>

datatype response = Response (status_code: int) (decoded: "json option")

definition resp_json :: "response \<Rightarrow> py_error + json" where
  "resp_json r = (case decoded r of None \<Rightarrow> Inl JSONDecodeError | Some v \<Rightarrow> Inr v)"

datatype http_method = GET | POST | PUT

record http_request =
  req_method :: http_method
  req_url :: string
  req_headers :: "(string \<times> string) list"
  req_json :: "json option"

section \<open>The session\<close>

text \<open>
  The attributes of a \<open>DaikinSkyport\<close> object whose constructor has passed line 57, and
  the world it talks to. \<open>user_email\<close> and \<open>user_password\<close> are assigned only when the
  configuration has the key (lines 58-63): \<open>None\<close> is an attribute that does not exist.
  \<open>self_config\<close> is the attribute \<open>self.config\<close>, which only \<open>write_tokens_to_file\<close> assigns.

  \<open>transport\<close> is the script of the HTTP collaborator: the outcome of the next call is
  its head, \<open>None\<close> for a \<open>RequestException\<close>; when the script is exhausted every further
  call raises \<open>RequestException\<close>. \<open>sent\<close> records the requests issued, in order.
  \<open>disk\<close> is the file system and \<open>json_lib\<close> the module \<open>json\<close>.
\<close>

record session =
  thermostats :: "pydict list"
  thermostatlist :: json
  authenticated :: bool
  file_based_config :: bool
  user_email :: "json option"
  user_password :: "json option"
  config_filename :: "string option"
  access_token :: json
  refresh_token :: json
  self_config :: "json option"
  transport :: "response option list"
  sent :: "http_request list"
  disk :: filesystem
  json_lib :: json_module

definition http :: "http_request \<Rightarrow> session \<Rightarrow> response option \<times> session" where
  "http req s =
     (case transport s of
        [] \<Rightarrow> (None, s\<lparr>sent := sent s @ [req]\<rparr>)
      | r # rs \<Rightarrow> (r, s\<lparr>transport := rs, sent := sent s @ [req]\<rparr>))"

definition auth_header :: "(string \<times> string) list" where
  "auth_header = [(''Accept'', ''application/json''), (''Content-Type'', ''application/json'')]"

definition device_header :: "string \<Rightarrow> (string \<times> string) list" where
  "device_header bearer =
     [(''Content-Type'', ''application/json;charset=UTF-8''), (''Authorization'', bearer)]"

text \<open>\<open>write_tokens_to_file\<close>, lines 213-222.\<close>

definition write_tokens_to_file :: "session \<Rightarrow> (py_error + unit) \<times> session" where
  "write_tokens_to_file s =
     (case user_email s of
        None \<Rightarrow> (Inl AttributeError, s)
      | Some email \<Rightarrow>
          let config = JObj [(''ACCESS_TOKEN'', access_token s),
                             (''REFRESH_TOKEN'', refresh_token s),
                             (''EMAIL'', email)]
          in if file_based_config s then
               (case config_filename s of
                  None \<Rightarrow> (Inl TypeError, s)
                | Some filename \<Rightarrow>
                    (case config_from_file (json_lib s) filename config (disk s) of
                       (Inl e, fs) \<Rightarrow> (Inl e, s\<lparr>disk := fs\<rparr>)
                     | (Inr _, fs) \<Rightarrow> (Inr (), s\<lparr>disk := fs\<rparr>)))
             else (Inr (), s\<lparr>self_config := Some config\<rparr>))"

text \<open>\<open>request_tokens\<close>, lines 80-102.\<close>

definition request_tokens :: "session \<Rightarrow> (py_error + unit) \<times> session" where
  "request_tokens s =
     (case user_email s of
        None \<Rightarrow> (Inl AttributeError, s)
      | Some email \<Rightarrow>
     (case user_password s of
        None \<Rightarrow> (Inl AttributeError, s)
      | Some password \<Rightarrow>
     (case http \<lparr>req_method = POST,
                 req_url = ''https://api.daikinskyport.com/users/auth/login'',
                 req_headers = auth_header,
                 req_json = Some (JObj [(''email'', email), (''password'', password)])\<rparr> s of
        (None, s1) \<Rightarrow> (Inr (), s1)
      | (Some request, s1) \<Rightarrow>
          if status_code request = 200 then
            (case resp_json request of
               Inl e \<Rightarrow> (Inl e, s1)
             | Inr j \<Rightarrow>
            (case getitem j ''accessToken'' of
               Inl e \<Rightarrow> (Inl e, s1)
             | Inr tok \<Rightarrow>
            (case getitem j ''refreshToken'' of
               Inl e \<Rightarrow> (Inl e, s1\<lparr>access_token := tok\<rparr>)
             | Inr rtok \<Rightarrow>
                 if rtok = JNull
                 then (Inr (), s1\<lparr>access_token := tok, refresh_token := rtok\<rparr>)
                 else write_tokens_to_file
                        (s1\<lparr>access_token := tok, refresh_token := rtok\<rparr>))))
          else (Inr (), s1))))"

text \<open>
  \<open>refresh_tokens\<close>, lines 104-117. The result is \<open>True\<close> (\<open>Some True\<close>) or, where the
  method falls off its end, \<open>None\<close>. The \<open>requests.post\<close> of line 111 is outside any
  \<open>try\<close>.
\<close>

definition refresh_tokens :: "session \<Rightarrow> (py_error + bool option) \<times> session" where
  "refresh_tokens s =
     (case user_email s of
        None \<Rightarrow> (Inl AttributeError, s)
      | Some email \<Rightarrow>
     (case http \<lparr>req_method = POST,
                 req_url = ''https://api.daikinskyport.com/users/auth/token'',
                 req_headers = auth_header,
                 req_json = Some (JObj [(''email'', email),
                                        (''refreshToken'', refresh_token s)])\<rparr> s of
        (None, s1) \<Rightarrow> (Inl RequestException, s1)
      | (Some request, s1) \<Rightarrow>
          if status_code request = 200 then
            (case resp_json request of
               Inl e \<Rightarrow> (Inl e, s1)
             | Inr j \<Rightarrow>
            (case getitem j ''accessToken'' of
               Inl e \<Rightarrow> (Inl e, s1)
             | Inr tok \<Rightarrow>
            (case write_tokens_to_file (s1\<lparr>access_token := tok\<rparr>) of
               (Inl e, s2) \<Rightarrow> (Inl e, s2)
             | (Inr _, s2) \<Rightarrow> (Inr (Some True), s2))))
          else
            (case request_tokens s1 of
               (Inl e, s2) \<Rightarrow> (Inl e, s2)
             | (Inr _, s2) \<Rightarrow> (Inr None, s2))))"

section \<open>Fetching the devices\<close>

text \<open>
  \<open>get_thermostat_info\<close>, lines 153-173. The result is the decoded body, or \<open>None\<close>
  (\<open>JNull\<close>). The method calls itself after every successful refresh.
\<close>

function get_thermostat_info :: "json \<Rightarrow> session \<Rightarrow> (py_error + json) \<times> session" where
  "get_thermostat_info deviceid s =
     (case str_concat ''https://api.daikinskyport.com/deviceData/'' deviceid of
        Inl e \<Rightarrow> (Inl e, s)
      | Inr u \<Rightarrow>
     (case str_concat ''Bearer '' (access_token s) of
        Inl e \<Rightarrow> (Inl e, s)
      | Inr bearer \<Rightarrow>
     (case http \<lparr>req_method = GET, req_url = u,
                 req_headers = device_header bearer, req_json = None\<rparr> s of
        (None, s1) \<Rightarrow> (Inr JNull, s1)
      | (Some request, s1) \<Rightarrow>
          if status_code request = 200 then
            (case resp_json request of
               Inl e \<Rightarrow> (Inl e, s1\<lparr>authenticated := True\<rparr>)
             | Inr j \<Rightarrow> (Inr j, s1\<lparr>authenticated := True\<rparr>))
          else
            (case refresh_tokens (s1\<lparr>authenticated := False\<rparr>) of
               (Inl e, s2) \<Rightarrow> (Inl e, s2)
             | (Inr r, s2) \<Rightarrow>
                 if r = Some True then get_thermostat_info deviceid s2
                 else (Inr JNull, s2)))))"
  by pat_completeness auto
termination
proof -
  have popped: "length (transport s1) < length (transport s)"
    if "(Some rsp, s1) = http req s" for rsp s1 req s
    using that by (auto simp: http_def split: list.splits)
  have sent_one: "length (transport (snd (http req s))) \<le> n"
    if "length (transport s) \<le> n" for req s n
    using that by (auto simp add: http_def split: list.split)
  have written: "transport (snd (write_tokens_to_file s)) = transport s" for s
    by (simp add: write_tokens_to_file_def Let_def case_prod_beta
             split: option.split sum.split)
  have requested: "length (transport (snd (request_tokens s))) \<le> n"
    if "length (transport s) \<le> n" for s n
    using that by (simp add: request_tokens_def case_prod_beta sent_one written
                         split: option.split sum.split)
  have refreshed: "length (transport (snd (refresh_tokens s))) \<le> length (transport s)" for s
    by (simp add: refresh_tokens_def case_prod_beta sent_one written requested
             split: option.split sum.split)
  have refreshed': "length (transport s1) \<le> length (transport s)"
    if "(r, s1) = refresh_tokens s" for r s1 s
    using refreshed [of s] that [symmetric] by simp
  show ?thesis
    apply (relation "measure (\<lambda>(deviceid, s). length (transport s))")
     apply simp
    apply (auto dest!: popped refreshed')
    done
qed

declare get_thermostat_info.simps [simp del]


text \<open>
  The scan of lines 137-140: every cache position whose \<open>id\<close> equals the fetched one is
  overwritten. The result is the flag \<open>overwrite\<close> and the cache.
\<close>

fun overwrite_loop ::
  "json \<Rightarrow> pydict \<Rightarrow> nat list \<Rightarrow> pydict list \<Rightarrow> bool \<Rightarrow> (py_error + bool) \<times> pydict list" where
  "overwrite_loop tid thermostat_info [] ths overwrite = (Inr overwrite, ths)"
| "overwrite_loop tid thermostat_info (index # rest) ths overwrite =
     (case dict_get (ths ! index) ''id'' of
        Inl e \<Rightarrow> (Inl e, ths)
      | Inr cid \<Rightarrow>
          if tid = cid
          then overwrite_loop tid thermostat_info rest (ths[index := thermostat_info]) True
          else overwrite_loop tid thermostat_info rest ths overwrite)"

text \<open>Lines 137-142: the scan over \<open>range(len(self.thermostats))\<close>, then the append.\<close>

definition upsert ::
  "json \<Rightarrow> pydict \<Rightarrow> pydict list \<Rightarrow> (py_error + unit) \<times> pydict list" where
  "upsert tid thermostat_info ths =
     (case overwrite_loop tid thermostat_info [0..<length ths] ths False of
        (Inl e, ths') \<Rightarrow> (Inl e, ths')
      | (Inr overwrite, ths') \<Rightarrow>
          (Inr (), if overwrite then ths' else ths' @ [thermostat_info]))"

text \<open>
  The loop of lines 132-142 over the fetched device list; lines 135-136 store the
  listed \<open>name\<close> and \<open>id\<close> in the fetched payload.
\<close>

fun for_thermostats :: "json list \<Rightarrow> session \<Rightarrow> (py_error + unit) \<times> session" where
  "for_thermostats [] s = (Inr (), s)"
| "for_thermostats (thermostat # rest) s =
     (case getitem thermostat ''id'' of
        Inl e \<Rightarrow> (Inl e, s)
      | Inr tid \<Rightarrow>
     (case get_thermostat_info tid s of
        (Inl e, s1) \<Rightarrow> (Inl e, s1)
      | (Inr fetched, s1) \<Rightarrow>
     (case getitem thermostat ''name'' of
        Inl e \<Rightarrow> (Inl e, s1)
      | Inr nm \<Rightarrow>
     (case setitem fetched ''name'' nm of
        Inl e \<Rightarrow> (Inl e, s1)
      | Inr named \<Rightarrow>
          (case upsert tid (dict_set ''id'' tid named) (thermostats s1) of
             (Inl e, ths) \<Rightarrow> (Inl e, s1\<lparr>thermostats := ths\<rparr>)
           | (Inr _, ths) \<Rightarrow> for_thermostats rest (s1\<lparr>thermostats := ths\<rparr>))))))"

text \<open>
  \<open>get_thermostats\<close>, lines 119-151. The result is the cache (\<open>Some\<close>) or \<open>None\<close>. The
  method calls itself after every successful refresh.
\<close>

function get_thermostats :: "session \<Rightarrow> (py_error + pydict list option) \<times> session" where
  "get_thermostats s =
     (case str_concat ''Bearer '' (access_token s) of
        Inl e \<Rightarrow> (Inl e, s)
      | Inr bearer \<Rightarrow>
     (case http \<lparr>req_method = GET, req_url = ''https://api.daikinskyport.com/devices'',
                 req_headers = device_header bearer, req_json = None\<rparr> s of
        (None, s1) \<Rightarrow> (Inr None, s1)
      | (Some request, s1) \<Rightarrow>
          if status_code request = 200 then
            (case resp_json request of
               Inl e \<Rightarrow> (Inl e, s1\<lparr>authenticated := True\<rparr>)
             | Inr j \<Rightarrow>
            (case py_iter j of
               Inl e \<Rightarrow> (Inl e, s1\<lparr>authenticated := True, thermostatlist := j\<rparr>)
             | Inr items \<Rightarrow>
            (case for_thermostats items
                    (s1\<lparr>authenticated := True, thermostatlist := j\<rparr>) of
               (Inl e, s2) \<Rightarrow> (Inl e, s2)
             | (Inr _, s2) \<Rightarrow> (Inr (Some (thermostats s2)), s2))))
          else
            (case refresh_tokens (s1\<lparr>authenticated := False\<rparr>) of
               (Inl e, s2) \<Rightarrow> (Inl e, s2)
             | (Inr r, s2) \<Rightarrow>
                 if r = Some True then get_thermostats s2 else (Inr None, s2))))"
  by pat_completeness auto
termination
proof -
  have popped: "length (transport s1) < length (transport s)"
    if "(Some rsp, s1) = http req s" for rsp s1 req s
    using that by (auto simp: http_def split: list.splits)
  have sent_one: "length (transport (snd (http req s))) \<le> n"
    if "length (transport s) \<le> n" for req s n
    using that by (auto simp add: http_def split: list.split)
  have written: "transport (snd (write_tokens_to_file s)) = transport s" for s
    by (simp add: write_tokens_to_file_def Let_def case_prod_beta
             split: option.split sum.split)
  have requested: "length (transport (snd (request_tokens s))) \<le> n"
    if "length (transport s) \<le> n" for s n
    using that by (simp add: request_tokens_def case_prod_beta sent_one written
                         split: option.split sum.split)
  have refreshed: "length (transport (snd (refresh_tokens s))) \<le> length (transport s)" for s
    by (simp add: refresh_tokens_def case_prod_beta sent_one written requested
             split: option.split sum.split)
  have refreshed': "length (transport s1) \<le> length (transport s)"
    if "(r, s1) = refresh_tokens s" for r s1 s
    using refreshed [of s] that [symmetric] by simp
  show ?thesis
    apply (relation "measure (\<lambda>s. length (transport s))")
     apply simp
    apply (auto dest!: popped refreshed')
    done
qed

declare get_thermostats.simps [simp del]


text \<open>\<open>update\<close>, lines 224-226.\<close>

definition update :: "session \<Rightarrow> (py_error + unit) \<times> session" where
  "update s = (case get_thermostats s of (Inl e, s1) \<Rightarrow> (Inl e, s1) | (Inr _, s1) \<Rightarrow> (Inr (), s1))"

section \<open>Command dispatch\<close>

text \<open>
  \<open>make_request\<close>, lines 228-250. The result is the response (\<open>Some\<close>) or \<open>None\<close>. The
  call of lines 244-245 passes \<open>body\<close> in the place of \<open>index\<close> and \<open>deviceID\<close> in the
  place of \<open>body\<close>. Line 249 decodes the body of the response for the log message.
\<close>

function make_request ::
  "session \<Rightarrow> json \<Rightarrow> json \<Rightarrow> string \<Rightarrow> int \<Rightarrow> (py_error + response option) \<times> session" where
  "make_request s index body log_msg_action retry_count =
     (case list_index (thermostats s) index of
        Inl e \<Rightarrow> (Inl e, s)
      | Inr entry \<Rightarrow>
     (case dict_get entry ''id'' of
        Inl e \<Rightarrow> (Inl e, s)
      | Inr deviceID \<Rightarrow>
     (case str_concat ''https://api.daikinskyport.com/deviceData/'' deviceID of
        Inl e \<Rightarrow> (Inl e, s)
      | Inr u \<Rightarrow>
     (case str_concat ''Bearer '' (access_token s) of
        Inl e \<Rightarrow> (Inl e, s)
      | Inr bearer \<Rightarrow>
     (case http \<lparr>req_method = PUT, req_url = u,
                 req_headers = device_header bearer, req_json = Some body\<rparr> s of
        (None, s1) \<Rightarrow> (Inr None, s1)
      | (Some request, s1) \<Rightarrow>
          if status_code request = 200 then (Inr (Some request), s1)
          else if status_code request = 401 \<and> retry_count = 0 then
            (case resp_json request of
               Inl e \<Rightarrow> (Inl e, s1)
             | Inr j \<Rightarrow>
            (case getitem j ''error'' of
               Inl e \<Rightarrow> (Inl e, s1)
             | Inr err \<Rightarrow>
                 if err = JStr ''authorization_expired'' then
                   (case refresh_tokens s1 of
                      (Inl e, s2) \<Rightarrow> (Inl e, s2)
                    | (Inr r, s2) \<Rightarrow>
                        if r = Some True
                        then make_request s2 body deviceID log_msg_action (retry_count + 1)
                        else (Inr None, s2))
                 else (case resp_json request of
                         Inl e \<Rightarrow> (Inl e, s1)
                       | Inr _ \<Rightarrow> (Inr None, s1))))
          else (case resp_json request of
                  Inl e \<Rightarrow> (Inl e, s1)
                | Inr _ \<Rightarrow> (Inr None, s1)))))))"
  by pat_completeness auto
termination
  apply (relation "measure (\<lambda>(s, index, body, log_msg_action, retry_count).
                              if retry_count = 0 then 1 else 0)")
   apply simp
  apply simp
  done

declare make_request.simps [simp del]

text \<open>
  The command methods, lines 252-388. An omitted argument is \<open>None\<close> (\<open>JNull\<close>). The
  argument \<open>prefix\<close> of \<open>set_thermostat_schedule\<close> is written \<open>prefix'\<close>.
\<close>

definition set_hvac_mode :: "session \<Rightarrow> json \<Rightarrow> json \<Rightarrow> (py_error + response option) \<times> session" where
  "set_hvac_mode s index hvac_mode =
     make_request s index (JObj [(''mode'', hvac_mode)]) ''set HVAC mode'' 0"

definition set_thermostat_schedule ::
  "session \<Rightarrow> json \<Rightarrow> json \<Rightarrow> json \<Rightarrow> json \<Rightarrow> json \<Rightarrow> json \<Rightarrow> json
     \<Rightarrow> (py_error + response option) \<times> session" where
  "set_thermostat_schedule s index prefix' start enable label heating cooling =
     (case concat_str prefix' ''Time'' of
        Inl e \<Rightarrow> (Inl e, s)
      | Inr k_time \<Rightarrow>
     (case concat_str prefix' ''Enabled'' of
        Inl e \<Rightarrow> (Inl e, s)
      | Inr k_enabled \<Rightarrow>
     (case concat_str prefix' ''Label'' of
        Inl e \<Rightarrow> (Inl e, s)
      | Inr k_label \<Rightarrow>
     (case concat_str prefix' ''hsp'' of
        Inl e \<Rightarrow> (Inl e, s)
      | Inr k_hsp \<Rightarrow>
     (case concat_str prefix' ''csp'' of
        Inl e \<Rightarrow> (Inl e, s)
      | Inr k_csp \<Rightarrow>
          make_request s index
            (JObj [(k_time, start), (k_enabled, enable), (k_label, label),
                   (k_hsp, heating), (k_csp, cooling)])
            ''set thermostat schedule'' 0)))))"

definition set_fan_mode :: "session \<Rightarrow> json \<Rightarrow> json \<Rightarrow> (py_error + response option) \<times> session" where
  "set_fan_mode s index fan_mode =
     make_request s index (JObj [(''fanCirculate'', fan_mode)]) ''set fan mode'' 0"

definition set_fan_speed :: "session \<Rightarrow> json \<Rightarrow> json \<Rightarrow> (py_error + response option) \<times> session" where
  "set_fan_speed s index fan_speed =
     make_request s index (JObj [(''fanCirculateSpeed'', fan_speed)]) ''set fan speed'' 0"

definition set_fan_clean :: "session \<Rightarrow> json \<Rightarrow> json \<Rightarrow> (py_error + response option) \<times> session" where
  "set_fan_clean s index active =
     make_request s index (JObj [(''oneCleanFanActive'', active)]) ''set fan clean mode'' 0"

text \<open>\<open>self.thermostats[index][key]\<close>, the cached value an omitted argument defaults to.\<close>

definition cached :: "session \<Rightarrow> json \<Rightarrow> string \<Rightarrow> py_error + json" where
  "cached s index k =
     (case list_index (thermostats s) index of
        Inl e \<Rightarrow> Inl e
      | Inr entry \<Rightarrow> dict_get entry k)"

definition set_temp_hold ::
  "session \<Rightarrow> json \<Rightarrow> json \<Rightarrow> json \<Rightarrow> json \<Rightarrow> (py_error + response option) \<times> session" where
  "set_temp_hold s index cool_temp heat_temp hold_duration =
     (case (if hold_duration = JNull then cached s index ''schedOverrideDuration''
            else Inr hold_duration) of
        Inl e \<Rightarrow> (Inl e, s)
      | Inr hold_duration1 \<Rightarrow>
     (case (if cool_temp = JNull then cached s index ''cspHome'' else Inr cool_temp) of
        Inl e \<Rightarrow> (Inl e, s)
      | Inr cool_temp1 \<Rightarrow>
     (case (if heat_temp = JNull then cached s index ''hspHome'' else Inr heat_temp) of
        Inl e \<Rightarrow> (Inl e, s)
      | Inr heat_temp1 \<Rightarrow>
     (case py_round1 heat_temp1 of
        Inl e \<Rightarrow> (Inl e, s)
      | Inr hsp \<Rightarrow>
     (case py_round1 cool_temp1 of
        Inl e \<Rightarrow> (Inl e, s)
      | Inr csp \<Rightarrow>
          make_request s index
            (JObj [(''hspHome'', hsp), (''cspHome'', csp), (''schedOverride'', JInt 1),
                   (''schedOverrideDuration'', hold_duration1)])
            ''set hold temp'' 0)))))"

definition set_permanent_hold ::
  "session \<Rightarrow> json \<Rightarrow> json \<Rightarrow> json \<Rightarrow> (py_error + response option) \<times> session" where
  "set_permanent_hold s index cool_temp heat_temp =
     (case (if cool_temp = JNull then cached s index ''cspHome'' else Inr cool_temp) of
        Inl e \<Rightarrow> (Inl e, s)
      | Inr cool_temp1 \<Rightarrow>
     (case (if heat_temp = JNull then cached s index ''hspHome'' else Inr heat_temp) of
        Inl e \<Rightarrow> (Inl e, s)
      | Inr heat_temp1 \<Rightarrow>
     (case py_round1 heat_temp1 of
        Inl e \<Rightarrow> (Inl e, s)
      | Inr hsp \<Rightarrow>
     (case py_round1 cool_temp1 of
        Inl e \<Rightarrow> (Inl e, s)
      | Inr csp \<Rightarrow>
          make_request s index
            (JObj [(''hspHome'', hsp), (''cspHome'', csp), (''schedOverride'', JInt 0),
                   (''schedEnabled'', JBool False)])
            ''set permanent hold'' 0))))"

definition set_away ::
  "session \<Rightarrow> json \<Rightarrow> json \<Rightarrow> json \<Rightarrow> json \<Rightarrow> (py_error + response option) \<times> session" where
  "set_away s index mode heat_temp cool_temp =
     (case (if heat_temp = JNull
            then (case cached s index ''hspAway'' of Inl e \<Rightarrow> Inl e | Inr v \<Rightarrow> py_round1 v)
            else Inr heat_temp) of
        Inl e \<Rightarrow> (Inl e, s)
      | Inr heat_temp1 \<Rightarrow>
     (case (if cool_temp = JNull
            then (case cached s index ''cspAway'' of Inl e \<Rightarrow> Inl e | Inr v \<Rightarrow> py_round1 v)
            else Inr cool_temp) of
        Inl e \<Rightarrow> (Inl e, s)
      | Inr cool_temp1 \<Rightarrow>
          make_request s index
            (JObj [(''geofencingAway'', mode), (''hspAway'', heat_temp1),
                   (''cspAway'', cool_temp1)])
            ''set away mode'' 0))"

definition resume_program :: "session \<Rightarrow> json \<Rightarrow> (py_error + response option) \<times> session" where
  "resume_program s index =
     make_request s index
       (JObj [(''schedEnabled'', JBool True), (''schedOverride'', JInt 0),
              (''geofencingAway'', JBool False)])
       ''resume program'' 0"

definition set_fan_schedule ::
  "session \<Rightarrow> json \<Rightarrow> json \<Rightarrow> json \<Rightarrow> json \<Rightarrow> json \<Rightarrow> (py_error + response option) \<times> session" where
  "set_fan_schedule s index start stop interval speed =
     make_request s index
       (JObj [(''fanCirculateStart'', start), (''fanCirculateStop'', stop),
              (''fanCirculateDuration'', interval), (''fanCirculateSpeed'', speed)])
       ''set fan schedule'' 0"

definition set_night_mode ::
  "session \<Rightarrow> json \<Rightarrow> json \<Rightarrow> json \<Rightarrow> json \<Rightarrow> (py_error + response option) \<times> session" where
  "set_night_mode s index start stop enable =
     make_request s index
       (JObj [(''nightModeStart'', start), (''nightModeStop'', stop),
              (''nightModeEnabled'', enable)])
       ''set night mode'' 0"

definition set_humidity ::
  "session \<Rightarrow> json \<Rightarrow> json \<Rightarrow> json \<Rightarrow> (py_error + response option) \<times> session" where
  "set_humidity s index humidity_low humidity_high =
     (case (if humidity_low = JNull then cached s index ''humSP'' else Inr humidity_low) of
        Inl e \<Rightarrow> (Inl e, s)
      | Inr humidity_low1 \<Rightarrow>
     (case (if humidity_high = JNull then cached s index ''dehumSP'' else Inr humidity_high) of
        Inl e \<Rightarrow> (Inl e, s)
      | Inr humidity_high1 \<Rightarrow>
          make_request s index
            (JObj [(''dehumSP'', humidity_high1), (''humSP'', humidity_low1)])
            ''set humidity level'' 0))"

section \<open>Vocabulary of the properties\<close>

text \<open>The requests issued between two states of a session, oldest first.\<close>

definition transmitted :: "session \<Rightarrow> session \<Rightarrow> http_request list" where
  "transmitted s s' = drop (length (sent s)) (sent s')"

text \<open>The \<open>PUT\<close> of line 235 for device \<open>dev\<close>, access token \<open>tok\<close> and fieldset \<open>body\<close>.\<close>

definition put_request :: "string \<Rightarrow> string \<Rightarrow> json \<Rightarrow> http_request" where
  "put_request dev tok body =
     \<lparr>req_method = PUT, req_url = ''https://api.daikinskyport.com/deviceData/'' @ dev,
      req_headers = device_header (''Bearer '' @ tok), req_json = Some body\<rparr>"

text \<open>
  A value with at most one decimal digit: \<open>round(v, 1)\<close> gives it back unchanged.
\<close>

definition one_decimal :: "json \<Rightarrow> bool" where
  "one_decimal v = (py_round1 v = Inr v)"

text \<open>
  For the instances below: the module \<open>json\<close> on the two configuration documents they
  use (any other text is rejected), and a session that holds one thermostat.
\<close>

definition demo_documents :: "(string \<times> json) list" where
  "demo_documents =
     [(''{EMAIL: old@example.org}'', JObj [(''EMAIL'', JStr ''old@example.org'')]),
      (''{EMAIL: new@example.org}'', JObj [(''EMAIL'', JStr ''new@example.org'')])]"

definition demo_json :: json_module where
  "demo_json =
     \<lparr>dumps = (\<lambda>v. case find (\<lambda>td. snd td = v) demo_documents of
                      None \<Rightarrow> ''null''
                    | Some td \<Rightarrow> fst td),
      loads = map_of demo_documents\<rparr>"


definition demo_thermostat :: pydict where
  "demo_thermostat =
     [(''id'', JStr ''dev1''), (''name'', JStr ''Hall''),
      (''hspHome'', JFloat (273 / 4)), (''cspHome'', JInt 75),
      (''schedOverrideDuration'', JInt 60),
      (''hspAway'', JFloat (495 / 8)), (''cspAway'', JFloat (165 / 2)),
      (''humSP'', JInt 40), (''dehumSP'', JInt 55)]"

definition demo_session :: session where
  "demo_session =
     \<lparr>thermostats = [demo_thermostat], thermostatlist = JArr [], authenticated = True,
      file_based_config = False, user_email = Some (JStr ''user@example.org''),
      user_password = None, config_filename = None, access_token = JStr ''tok'',
      refresh_token = JStr ''ref'', self_config = None, transport = [], sent = [],
      disk = \<lparr>nodes = Map.empty, write_denied = [], read_denied = []\<rparr>,
      json_lib = demo_json\<rparr>"

text \<open>
  Two answers of the server: the \<open>401\<close> that reports an expired access token, and the
  answer of the refresh endpoint that carries a new one. A disk with a stored
  configuration, a file that is not JSON, a device and a path that cannot be written.
\<close>

definition expired :: response where
  "expired = Response 401 (Some (JObj [(''error'', JStr ''authorization_expired'')]))"

definition fresh_token :: response where
  "fresh_token = Response 200 (Some (JObj [(''accessToken'', JStr ''tok2'')]))"

definition demo_disk :: filesystem where
  "demo_disk =
     \<lparr>nodes = [''daikinskyport.conf'' \<mapsto> Regular ''{EMAIL: old@example.org}'',
               ''broken.conf'' \<mapsto> Regular ''<html>'',
               ''/dev/null'' \<mapsto> Special],
      write_denied = [''locked.conf''], read_denied = []\<rparr>"

text \<open>The \<open>id\<close> of a cache entry, and a cache whose entries all carry one.\<close>

definition dev_id :: "pydict \<Rightarrow> json option" where
  "dev_id e = map_of e ''id''"

definition ids_ok :: "pydict list \<Rightarrow> bool" where
  "ids_ok ths = list_all (\<lambda>e. dev_id e \<noteq> None) ths"

text \<open>
  The upsert of the specification: an entry whose \<open>id\<close> is already present is replaced
  in place by the whole new payload, otherwise the payload is appended.
\<close>

definition upsert_spec :: "pydict \<Rightarrow> pydict list \<Rightarrow> pydict list" where
  "upsert_spec info cache =
     (if dev_id info \<in> set (map dev_id cache)
      then map (\<lambda>e. if dev_id e = dev_id info then info else e) cache
      else cache @ [info])"

text \<open>
  A pass of \<open>get_thermostats\<close> as the specification describes it: the payloads are
  upserted one after the other, in the order of the remote list. The payload stored for
  a listed device is the body of an answer \<open>200\<close> of the server, as a dict, with the
  listed \<open>name\<close> and \<open>id\<close> written into it (lines 133-136).
\<close>

definition upsert_all :: "pydict list \<Rightarrow> pydict list \<Rightarrow> pydict list" where
  "upsert_all cache infos = foldl (\<lambda>ths info. upsert_spec info ths) cache infos"



text \<open>
  The ids of the remote device list, in its order (\<open>None\<close> for an item without one);
  the list of ids extended by an id it does not hold yet; \<open>n\<close> calls of
  \<open>get_thermostats\<close> in a row.
\<close>

definition listed_id :: "json \<Rightarrow> json option" where
  "listed_id thermostat = (case getitem thermostat ''id'' of Inl e \<Rightarrow> None | Inr i \<Rightarrow> Some i)"

definition remote_ids :: "json \<Rightarrow> json option list" where
  "remote_ids j = (case py_iter j of Inl e \<Rightarrow> [] | Inr items \<Rightarrow> map listed_id items)"

definition add_new :: "'a list \<Rightarrow> 'a \<Rightarrow> 'a list" where
  "add_new ids i = (if i \<in> set ids then ids else ids @ [i])"

definition fetches :: "nat \<Rightarrow> session \<Rightarrow> session" where
  "fetches n s = ((\<lambda>s. snd (get_thermostats s)) ^^ n) s"

text \<open>A session with an empty cache whose server lists two devices.\<close>

definition fresh_session :: session where
  "fresh_session =
     demo_session\<lparr>thermostats := [],
       transport :=
         [Some (Response 200 (Some (JArr [JObj [(''id'', JStr ''dev2''), (''name'', JStr ''Attic'')],
                                          JObj [(''id'', JStr ''dev1''), (''name'', JStr ''Hall'')]]))),
          Some (Response 200 (Some (JObj [(''hspHome'', JInt 70)]))),
          Some (Response 200 (Some (JObj [(''hspHome'', JInt 68)])))]\<rparr>"


text \<open>
  What the control flow of the token protocol and of the fetches reads from a session:
  the answers still to come, the credentials and settings, and whether the access token
  is a string. \<open>canon\<close> is the plainest session with a given control state; \<open>abstracted\<close>
  runs a method on it. \<open>after_get\<close> is the session once the request for the device list
  has been sent; \<open>overwrite\<close> is the replacement of one entry by a payload with its id.
\<close>

fun is_str :: "json \<Rightarrow> bool" where
  "is_str (JStr t) = True"
| "is_str _ = False"

type_synonym control =
  "response option list \<times> json option \<times> json option \<times> bool \<times> string option \<times> bool"

definition ctl :: "session \<Rightarrow> control" where
  "ctl s = (transport s, user_email s, user_password s, file_based_config s,
            config_filename s, is_str (access_token s))"

definition canon :: "control \<Rightarrow> session" where
  "canon c =
     (case c of (tr, em, pw, fb, fn, tk) \<Rightarrow>
        \<lparr>thermostats = [], thermostatlist = JNull, authenticated = False,
         file_based_config = fb, user_email = em, user_password = pw,
         config_filename = fn, access_token = (if tk then JStr [] else JNull),
         refresh_token = JNull, self_config = None, transport = tr, sent = [],
         disk = \<lparr>nodes = Map.empty, write_denied = [], read_denied = []\<rparr>,
         json_lib = \<lparr>dumps = (\<lambda>v. []), loads = (\<lambda>t. None)\<rparr>\<rparr>)"

definition abstracted :: "(session \<Rightarrow> 'a \<times> session) \<Rightarrow> control \<Rightarrow> 'a \<times> control" where
  "abstracted f c = (fst (f (canon c)), ctl (snd (f (canon c))))"

definition after_get :: "session \<Rightarrow> session" where
  "after_get s =
     snd (http \<lparr>req_method = GET, req_url = ''https://api.daikinskyport.com/devices'',
                req_headers =
                  device_header (''Bearer '' @ (case access_token s of JStr a \<Rightarrow> a | _ \<Rightarrow> [])),
                req_json = None\<rparr> s)"

definition overwrite :: "pydict \<Rightarrow> pydict \<Rightarrow> pydict" where
  "overwrite e info = (if dev_id e = dev_id info then info else e)"

text \<open>
  The session of \<open>stale_session\<close> with an access token that has expired: the server
  answers the first request for the list with \<open>401\<close>, then refreshes the token.
\<close>

definition expired_session :: session where
  "expired_session =
     demo_session\<lparr>transport :=
         [Some expired, Some fresh_token,
          Some (Response 200 (Some (JArr [JObj [(''id'', JStr ''dev2''), (''name'', JStr ''Attic'')],
                                          JObj [(''id'', JStr ''dev1''), (''name'', JStr ''Lobby'')]]))),
          Some (Response 200 (Some (JObj [(''hspHome'', JInt 70)]))),
          Some (Response 200 (Some (JObj [(''cspHome'', JInt 80)])))]\<rparr>"

section \<open>Frame properties of the token protocol\<close>

lemma http_fst: "fst (http req s) = (case transport s of [] \<Rightarrow> None | r # rs \<Rightarrow> r)"
  by (simp add: http_def split: list.split)

lemma http_snd:
  "snd (http req s) = s\<lparr>transport := tl (transport s), sent := sent s @ [req]\<rparr>"
  by (simp add: http_def split: list.split)

lemma write_tokens_to_file_frame:
  "thermostats (snd (write_tokens_to_file s)) = thermostats s"
  "sent (snd (write_tokens_to_file s)) = sent s"
  "transport (snd (write_tokens_to_file s)) = transport s"
  "access_token (snd (write_tokens_to_file s)) = access_token s"
  "user_email (snd (write_tokens_to_file s)) = user_email s"
  "user_password (snd (write_tokens_to_file s)) = user_password s"
  "file_based_config (snd (write_tokens_to_file s)) = file_based_config s"
  "config_filename (snd (write_tokens_to_file s)) = config_filename s"
  by (simp_all add: write_tokens_to_file_def Let_def case_prod_beta
               split: option.split sum.split)

lemma request_tokens_frame:
  "thermostats (snd (request_tokens s)) = thermostats s"
  "user_email (snd (request_tokens s)) = user_email s"
  "user_password (snd (request_tokens s)) = user_password s"
  "file_based_config (snd (request_tokens s)) = file_based_config s"
  "config_filename (snd (request_tokens s)) = config_filename s"
  by (simp_all add: request_tokens_def case_prod_beta http_snd write_tokens_to_file_frame
               split: option.split sum.split)

lemma request_tokens_sent_mono:
  "prefix ys (sent s) \<Longrightarrow> prefix ys (sent (snd (request_tokens s)))"
  by (simp add: request_tokens_def case_prod_beta http_snd write_tokens_to_file_frame
           split: option.split sum.split)

lemma refresh_tokens_frame:
  "thermostats (snd (refresh_tokens s)) = thermostats s"
  "user_email (snd (refresh_tokens s)) = user_email s"
  "user_password (snd (refresh_tokens s)) = user_password s"
  "file_based_config (snd (refresh_tokens s)) = file_based_config s"
  "config_filename (snd (refresh_tokens s)) = config_filename s"
  by (simp_all add: refresh_tokens_def case_prod_beta http_snd write_tokens_to_file_frame
                    request_tokens_frame
               split: option.split sum.split)

lemma refresh_tokens_sent_mono:
  "prefix ys (sent s) \<Longrightarrow> prefix ys (sent (snd (refresh_tokens s)))"
  by (simp add: refresh_tokens_def case_prod_beta http_snd write_tokens_to_file_frame
                request_tokens_sent_mono
           split: option.split sum.split)

section \<open>The command methods and the cache\<close>

lemma make_request_retry_thermostats:
  "retry_count \<noteq> 0 \<Longrightarrow>
   thermostats (snd (make_request s index body msg retry_count)) = thermostats s"
  by (subst make_request.simps)
     (simp add: case_prod_beta http_snd split: sum.split option.split)

lemma make_request_thermostats:
  "thermostats (snd (make_request s index body msg retry_count)) = thermostats s"
  by (subst make_request.simps)
     (simp add: case_prod_beta http_snd refresh_tokens_frame make_request_retry_thermostats
           split: sum.split option.split)

lemma set_hvac_mode_thermostats:
  "thermostats (snd (set_hvac_mode s index hvac_mode)) = thermostats s"
  by (simp add: set_hvac_mode_def make_request_thermostats)

lemma set_fan_mode_thermostats:
  "thermostats (snd (set_fan_mode s index fan_mode)) = thermostats s"
  by (simp add: set_fan_mode_def make_request_thermostats)

lemma set_fan_speed_thermostats:
  "thermostats (snd (set_fan_speed s index fan_speed)) = thermostats s"
  by (simp add: set_fan_speed_def make_request_thermostats)

lemma set_fan_clean_thermostats:
  "thermostats (snd (set_fan_clean s index active)) = thermostats s"
  by (simp add: set_fan_clean_def make_request_thermostats)

lemma set_temp_hold_thermostats:
  "thermostats (snd (set_temp_hold s index cool_temp heat_temp hold_duration)) = thermostats s"
  by (simp add: set_temp_hold_def make_request_thermostats split: sum.split)

lemma set_permanent_hold_thermostats:
  "thermostats (snd (set_permanent_hold s index cool_temp heat_temp)) = thermostats s"
  by (simp add: set_permanent_hold_def make_request_thermostats split: sum.split)

lemma set_away_thermostats:
  "thermostats (snd (set_away s index mode heat_temp cool_temp)) = thermostats s"
  by (simp add: set_away_def make_request_thermostats split: sum.split)

lemma resume_program_thermostats:
  "thermostats (snd (resume_program s index)) = thermostats s"
  by (simp add: resume_program_def make_request_thermostats)

lemma set_fan_schedule_thermostats:
  "thermostats (snd (set_fan_schedule s index start stop interval speed)) = thermostats s"
  by (simp add: set_fan_schedule_def make_request_thermostats)

lemma set_night_mode_thermostats:
  "thermostats (snd (set_night_mode s index start stop enable)) = thermostats s"
  by (simp add: set_night_mode_def make_request_thermostats)

lemma set_humidity_thermostats:
  "thermostats (snd (set_humidity s index humidity_low humidity_high)) = thermostats s"
  by (simp add: set_humidity_def make_request_thermostats split: sum.split)

lemma set_thermostat_schedule_thermostats:
  "thermostats
     (snd (set_thermostat_schedule s index prefix' start enable label heating cooling)) =
   thermostats s"
  by (simp add: set_thermostat_schedule_def make_request_thermostats split: sum.split)

text \<open>
  Claim C9. No command method changes the device cache \<open>self.thermostats\<close>, whatever the
  index, the arguments and the answers of the server, and whether the call returns or
  raises; the same holds for \<open>make_request\<close> and for the token methods it reaches. Cache
  entries are written by the device fetch only.
\<close>

theorem commands_leave_cache:
  "thermostats (snd (make_request s index body msg retry_count)) = thermostats s \<and>
   thermostats (snd (set_hvac_mode s index hvac_mode)) = thermostats s \<and>
   thermostats (snd (set_fan_mode s index fan_mode)) = thermostats s \<and>
   thermostats (snd (set_fan_speed s index fan_speed)) = thermostats s \<and>
   thermostats (snd (set_fan_clean s index active)) = thermostats s \<and>
   thermostats (snd (set_temp_hold s index cool_temp heat_temp hold_duration)) = thermostats s \<and>
   thermostats (snd (set_permanent_hold s index cool_temp heat_temp)) = thermostats s \<and>
   thermostats (snd (set_away s index mode heat_temp cool_temp)) = thermostats s \<and>
   thermostats (snd (resume_program s index)) = thermostats s \<and>
   thermostats (snd (set_fan_schedule s index start stop interval speed)) = thermostats s \<and>
   thermostats (snd (set_night_mode s index start stop enable)) = thermostats s \<and>
   thermostats (snd (set_humidity s index humidity_low humidity_high)) = thermostats s \<and>
   thermostats
     (snd (set_thermostat_schedule s index prefix' start enable label heating cooling)) =
   thermostats s \<and>
   thermostats (snd (refresh_tokens s)) = thermostats s \<and>
   thermostats (snd (request_tokens s)) = thermostats s \<and>
   thermostats (snd (write_tokens_to_file s)) = thermostats s"
  by (intro conjI make_request_thermostats set_hvac_mode_thermostats set_fan_mode_thermostats
        set_fan_speed_thermostats set_fan_clean_thermostats set_temp_hold_thermostats
        set_permanent_hold_thermostats set_away_thermostats resume_program_thermostats
        set_fan_schedule_thermostats set_night_mode_thermostats set_humidity_thermostats
        set_thermostat_schedule_thermostats refresh_tokens_frame(1) request_tokens_frame(1)
        write_tokens_to_file_frame(1))

section \<open>The fieldset a command transmits\<close>

lemma make_request_retry_sent_mono:
  "retry_count \<noteq> 0 \<Longrightarrow> prefix ys (sent s) \<Longrightarrow>
   prefix ys (sent (snd (make_request s index body msg retry_count)))"
  by (subst make_request.simps)
     (simp add: case_prod_beta http_snd split: sum.split option.split)

lemma make_request_first:
  assumes "cached s index ''id'' = Inr (JStr dev)" and "access_token s = JStr tok"
  shows "prefix (sent s @ [put_request dev tok body])
           (sent (snd (make_request s index body msg retry_count)))"
proof -
  from assms(1) obtain entry where e: "list_index (thermostats s) index = Inr entry"
      "dict_get entry ''id'' = Inr (JStr dev)"
    by (auto simp: cached_def split: sum.splits)
  show ?thesis
    by (subst make_request.simps)
       (simp add: e assms(2) case_prod_beta http_snd put_request_def
             refresh_tokens_sent_mono make_request_retry_sent_mono
           split: sum.split option.split)
qed

lemma take1_transmitted:
  "prefix (sent s @ [x]) (sent s') \<Longrightarrow> take 1 (transmitted s s') = [x]"
  by (auto simp: prefix_def transmitted_def)

lemma make_request_transmits:
  assumes "cached s index ''id'' = Inr (JStr dev)" and "access_token s = JStr tok"
  shows "take 1 (transmitted s (snd (make_request s index body msg retry_count))) =
           [put_request dev tok body]"
  by (rule take1_transmitted [OF make_request_first [OF assms]])

lemma set_temp_hold_transmits:
  assumes "cached s index ''id'' = Inr (JStr dev)" and "access_token s = JStr tok"
    and "(if hold_duration = JNull then cached s index ''schedOverrideDuration''
          else Inr hold_duration) = Inr d"
    and "(if cool_temp = JNull then cached s index ''cspHome'' else Inr cool_temp) = Inr c"
    and "(if heat_temp = JNull then cached s index ''hspHome'' else Inr heat_temp) = Inr h"
    and "py_round1 h = Inr rh" and "py_round1 c = Inr rc"
  shows "take 1 (transmitted s (snd (set_temp_hold s index cool_temp heat_temp hold_duration))) =
           [put_request dev tok
              (JObj [(''hspHome'', rh), (''cspHome'', rc), (''schedOverride'', JInt 1),
                     (''schedOverrideDuration'', d)])]"
  unfolding set_temp_hold_def
  by (simp only: assms(3-7) sum.case make_request_transmits [OF assms(1,2)])


text \<open>
  Claim C6. For a valid cache index whose entry has a string \<open>id\<close>, numeric \<open>hspHome\<close> and
  \<open>cspHome\<close> and a \<open>schedOverrideDuration\<close>, \<open>set_temp_hold(index)\<close> with no temperature
  and no duration sends, as its first request, the \<open>PUT\<close> whose fieldset has \<open>hspHome\<close> and
  \<open>cspHome\<close> equal to the cached values rounded to one decimal and
  \<open>schedOverrideDuration\<close> equal to the cached one.
\<close>

theorem set_temp_hold_defaults:
  assumes "cached s index ''id'' = Inr (JStr dev)" and "access_token s = JStr tok"
    and "cached s index ''hspHome'' = Inr h" and "py_round1 h = Inr rh"
    and "cached s index ''cspHome'' = Inr c" and "py_round1 c = Inr rc"
    and "cached s index ''schedOverrideDuration'' = Inr d"
  shows "take 1 (transmitted s (snd (set_temp_hold s index JNull JNull JNull))) =
           [put_request dev tok
              (JObj [(''hspHome'', rh), (''cspHome'', rc), (''schedOverride'', JInt 1),
                     (''schedOverrideDuration'', d)])]"
  using assms by (intro set_temp_hold_transmits) simp_all

lemma demo_cached:
  "cached demo_session (JInt 0) ''id'' = Inr (JStr ''dev1'')"
  "cached demo_session (JInt 0) ''hspHome'' = Inr (JFloat (273 / 4))"
  "cached demo_session (JInt 0) ''cspHome'' = Inr (JInt 75)"
  "cached demo_session (JInt 0) ''schedOverrideDuration'' = Inr (JInt 60)"
  "cached demo_session (JInt 0) ''hspAway'' = Inr (JFloat (495 / 8))"
  "cached demo_session (JInt 0) ''cspAway'' = Inr (JFloat (165 / 2))"
  "cached demo_session (JInt 0) ''humSP'' = Inr (JInt 40)"
  "cached demo_session (JInt 0) ''dehumSP'' = Inr (JInt 55)"
  "access_token demo_session = JStr ''tok''"
  by (simp_all add: demo_session_def demo_thermostat_def cached_def list_get_def dict_get_def)

lemma demo_round:
  "py_round1 (JFloat (273 / 4)) = Inr (JFloat (341 / 5))"
  "py_round1 (JInt 75) = Inr (JInt 75)"
  "py_round1 (JFloat (495 / 8)) = Inr (JFloat (619 / 10))"
  "py_round1 (JFloat (165 / 2)) = Inr (JFloat (165 / 2))"
  by code_simp+

theorem set_temp_hold_defaults_witness:
  "cached demo_session (JInt 0) ''id'' = Inr (JStr ''dev1'') \<and>
   access_token demo_session = JStr ''tok'' \<and>
   cached demo_session (JInt 0) ''hspHome'' = Inr (JFloat (273 / 4)) \<and>
   py_round1 (JFloat (273 / 4)) = Inr (JFloat (341 / 5)) \<and>
   cached demo_session (JInt 0) ''cspHome'' = Inr (JInt 75) \<and>
   py_round1 (JInt 75) = Inr (JInt 75) \<and>
   cached demo_session (JInt 0) ''schedOverrideDuration'' = Inr (JInt 60) \<and>
   take 1 (transmitted demo_session
             (snd (set_temp_hold demo_session (JInt 0) JNull JNull JNull))) =
     [put_request ''dev1'' ''tok''
        (JObj [(''hspHome'', JFloat (341 / 5)), (''cspHome'', JInt 75),
               (''schedOverride'', JInt 1), (''schedOverrideDuration'', JInt 60)])]"
  by (intro conjI demo_cached demo_round
        set_temp_hold_defaults [OF demo_cached(1) demo_cached(9) demo_cached(2) demo_round(1)
          demo_cached(3) demo_round(2) demo_cached(4)])


lemma round_half_even_of_int: "round_half_even (rat_of_int k) = k"
  by (simp add: round_half_even_def)

lemma py_round1_one_decimal: "py_round1 v = Inr r \<Longrightarrow> one_decimal r"
  by (cases v) (auto simp: one_decimal_def round_half_even_of_int)

lemma set_permanent_hold_transmits:
  assumes "cached s index ''id'' = Inr (JStr dev)" and "access_token s = JStr tok"
    and "(if cool_temp = JNull then cached s index ''cspHome'' else Inr cool_temp) = Inr c"
    and "(if heat_temp = JNull then cached s index ''hspHome'' else Inr heat_temp) = Inr h"
    and "py_round1 h = Inr rh" and "py_round1 c = Inr rc"
  shows "take 1 (transmitted s (snd (set_permanent_hold s index cool_temp heat_temp))) =
           [put_request dev tok
              (JObj [(''hspHome'', rh), (''cspHome'', rc), (''schedOverride'', JInt 0),
                     (''schedEnabled'', JBool False)])]"
  unfolding set_permanent_hold_def
  by (simp only: assms(3-6) sum.case make_request_transmits [OF assms(1,2)])

lemma set_away_transmits:
  assumes "cached s index ''id'' = Inr (JStr dev)" and "access_token s = JStr tok"
    and "(if heat_temp = JNull
          then (case cached s index ''hspAway'' of Inl e \<Rightarrow> Inl e | Inr v \<Rightarrow> py_round1 v)
          else Inr heat_temp) = Inr h"
    and "(if cool_temp = JNull
          then (case cached s index ''cspAway'' of Inl e \<Rightarrow> Inl e | Inr v \<Rightarrow> py_round1 v)
          else Inr cool_temp) = Inr c"
  shows "take 1 (transmitted s (snd (set_away s index mode heat_temp cool_temp))) =
           [put_request dev tok
              (JObj [(''geofencingAway'', mode), (''hspAway'', h), (''cspAway'', c)])]"
  unfolding set_away_def
  by (simp only: assms(3-4) sum.case make_request_transmits [OF assms(1,2)])

lemma set_humidity_transmits:
  assumes "cached s index ''id'' = Inr (JStr dev)" and "access_token s = JStr tok"
    and "(if humidity_low = JNull then cached s index ''humSP'' else Inr humidity_low) = Inr lo"
    and "(if humidity_high = JNull then cached s index ''dehumSP'' else Inr humidity_high)
           = Inr hi"
  shows "take 1 (transmitted s (snd (set_humidity s index humidity_low humidity_high))) =
           [put_request dev tok (JObj [(''dehumSP'', hi), (''humSP'', lo)])]"
  unfolding set_humidity_def
  by (simp only: assms(3-4) sum.case make_request_transmits [OF assms(1,2)])

lemma set_thermostat_schedule_transmits:
  assumes "cached s index ''id'' = Inr (JStr dev)" and "access_token s = JStr tok"
  shows "take 1 (transmitted s
           (snd (set_thermostat_schedule s index (JStr p) start enable label heating cooling))) =
           [put_request dev tok
              (JObj [(p @ ''Time'', start), (p @ ''Enabled'', enable), (p @ ''Label'', label),
                     (p @ ''hsp'', heating), (p @ ''csp'', cooling)])]"
  unfolding set_thermostat_schedule_def
  by (simp only: concat_str.simps sum.case make_request_transmits [OF assms(1,2)])

lemma resume_program_transmits:
  assumes "cached s index ''id'' = Inr (JStr dev)" and "access_token s = JStr tok"
  shows "take 1 (transmitted s (snd (resume_program s index))) =
           [put_request dev tok
              (JObj [(''schedEnabled'', JBool True), (''schedOverride'', JInt 0),
                     (''geofencingAway'', JBool False)])]"
  unfolding resume_program_def by (rule make_request_transmits [OF assms])

text \<open>
  Claim C7. For a valid cache index with a populated entry, the fieldset that
  \<open>set_permanent_hold(index)\<close> sends is exactly \<open>hspHome\<close>, \<open>cspHome\<close> (the cached values,
  rounded), \<open>schedOverride: 0\<close>, \<open>schedEnabled: false\<close>, and the fieldset that
  \<open>resume_program(index)\<close> sends is exactly \<open>schedEnabled: true\<close>, \<open>schedOverride: 0\<close>,
  \<open>geofencingAway: false\<close>.
\<close>

theorem hold_and_resume_fieldsets:
  assumes "cached s index ''id'' = Inr (JStr dev)" and "access_token s = JStr tok"
    and "cached s index ''hspHome'' = Inr h" and "py_round1 h = Inr rh"
    and "cached s index ''cspHome'' = Inr c" and "py_round1 c = Inr rc"
  shows "take 1 (transmitted s (snd (set_permanent_hold s index JNull JNull))) =
           [put_request dev tok
              (JObj [(''hspHome'', rh), (''cspHome'', rc), (''schedOverride'', JInt 0),
                     (''schedEnabled'', JBool False)])] \<and>
         take 1 (transmitted s (snd (resume_program s index))) =
           [put_request dev tok
              (JObj [(''schedEnabled'', JBool True), (''schedOverride'', JInt 0),
                     (''geofencingAway'', JBool False)])]"
proof
  show "take 1 (transmitted s (snd (set_permanent_hold s index JNull JNull))) =
           [put_request dev tok
              (JObj [(''hspHome'', rh), (''cspHome'', rc), (''schedOverride'', JInt 0),
                     (''schedEnabled'', JBool False)])]"
    using assms by (intro set_permanent_hold_transmits) simp_all
  show "take 1 (transmitted s (snd (resume_program s index))) =
           [put_request dev tok
              (JObj [(''schedEnabled'', JBool True), (''schedOverride'', JInt 0),
                     (''geofencingAway'', JBool False)])]"
    by (rule resume_program_transmits [OF assms(1,2)])
qed

theorem hold_and_resume_fieldsets_witness:
  "cached demo_session (JInt 0) ''id'' = Inr (JStr ''dev1'') \<and>
   access_token demo_session = JStr ''tok'' \<and>
   cached demo_session (JInt 0) ''hspHome'' = Inr (JFloat (273 / 4)) \<and>
   py_round1 (JFloat (273 / 4)) = Inr (JFloat (341 / 5)) \<and>
   cached demo_session (JInt 0) ''cspHome'' = Inr (JInt 75) \<and>
   py_round1 (JInt 75) = Inr (JInt 75) \<and>
   (take 1 (transmitted demo_session
              (snd (set_permanent_hold demo_session (JInt 0) JNull JNull))) =
      [put_request ''dev1'' ''tok''
         (JObj [(''hspHome'', JFloat (341 / 5)), (''cspHome'', JInt 75),
                (''schedOverride'', JInt 0), (''schedEnabled'', JBool False)])] \<and>
    take 1 (transmitted demo_session (snd (resume_program demo_session (JInt 0)))) =
      [put_request ''dev1'' ''tok''
         (JObj [(''schedEnabled'', JBool True), (''schedOverride'', JInt 0),
                (''geofencingAway'', JBool False)])])"
  by (intro conjI demo_cached demo_round
        hold_and_resume_fieldsets [OF demo_cached(1) demo_cached(9) demo_cached(2) demo_round(1)
          demo_cached(3) demo_round(2), THEN conjunct1]
        hold_and_resume_fieldsets [OF demo_cached(1) demo_cached(9) demo_cached(2) demo_round(1)
          demo_cached(3) demo_round(2), THEN conjunct2])

lemma demo_not_one_decimal:
  "\<not> one_decimal (JFloat (365 / 8))"
  "\<not> one_decimal (JFloat (445 / 8))"
  "\<not> one_decimal (JFloat (273 / 4))"
  "\<not> one_decimal (JFloat (301 / 4))"
  unfolding one_decimal_def by code_simp+

text \<open>
  Claim C5 as stated fails: \<open>set_humidity\<close> and \<open>set_thermostat_schedule\<close> never round;
  they transmit their setpoints as given.
\<close>

theorem setpoints_not_all_rounded:
  "take 1 (transmitted demo_session
     (snd (set_humidity demo_session (JInt 0) (JFloat (365 / 8)) (JFloat (445 / 8))))) =
     [put_request ''dev1'' ''tok''
        (JObj [(''dehumSP'', JFloat (445 / 8)), (''humSP'', JFloat (365 / 8))])] \<and>
   \<not> one_decimal (JFloat (445 / 8)) \<and> \<not> one_decimal (JFloat (365 / 8)) \<and>
   take 1 (transmitted demo_session
     (snd (set_thermostat_schedule demo_session (JInt 0) (JStr ''schedMonPart1'') (JInt 24)
            (JBool True) (JStr ''wake'') (JFloat (273 / 4)) (JFloat (301 / 4))))) =
     [put_request ''dev1'' ''tok''
        (JObj [(''schedMonPart1Time'', JInt 24), (''schedMonPart1Enabled'', JBool True),
               (''schedMonPart1Label'', JStr ''wake''),
               (''schedMonPart1hsp'', JFloat (273 / 4)),
               (''schedMonPart1csp'', JFloat (301 / 4))])] \<and>
   \<not> one_decimal (JFloat (273 / 4)) \<and> \<not> one_decimal (JFloat (301 / 4))"
proof (intro conjI demo_not_one_decimal)
  show "take 1 (transmitted demo_session
     (snd (set_humidity demo_session (JInt 0) (JFloat (365 / 8)) (JFloat (445 / 8))))) =
     [put_request ''dev1'' ''tok''
        (JObj [(''dehumSP'', JFloat (445 / 8)), (''humSP'', JFloat (365 / 8))])]"
    by (rule set_humidity_transmits [OF demo_cached(1) demo_cached(9)]) simp_all
  show "take 1 (transmitted demo_session
     (snd (set_thermostat_schedule demo_session (JInt 0) (JStr ''schedMonPart1'') (JInt 24)
            (JBool True) (JStr ''wake'') (JFloat (273 / 4)) (JFloat (301 / 4))))) =
     [put_request ''dev1'' ''tok''
        (JObj [(''schedMonPart1Time'', JInt 24), (''schedMonPart1Enabled'', JBool True),
               (''schedMonPart1Label'', JStr ''wake''),
               (''schedMonPart1hsp'', JFloat (273 / 4)),
               (''schedMonPart1csp'', JFloat (301 / 4))])]"
    using set_thermostat_schedule_transmits [OF demo_cached(1) demo_cached(9),
            of "''schedMonPart1''"]
    by simp
qed

lemma set_away_defaults:
  assumes "cached s index ''id'' = Inr (JStr dev)" and "access_token s = JStr tok"
    and "heat_temp = JNull \<longrightarrow> cached s index ''hspAway'' = Inr ha \<and> py_round1 ha = Inr rha"
    and "cool_temp = JNull \<longrightarrow> cached s index ''cspAway'' = Inr ca \<and> py_round1 ca = Inr rca"
  shows "take 1 (transmitted s (snd (set_away s index mode heat_temp cool_temp))) =
           [put_request dev tok
              (JObj [(''geofencingAway'', mode),
                     (''hspAway'', if heat_temp = JNull then rha else heat_temp),
                     (''cspAway'', if cool_temp = JNull then rca else cool_temp)])]"
  using assms(3,4) by (intro set_away_transmits [OF assms(1,2)]) auto

text \<open>
  Claim C5, amended. \<open>set_temp_hold\<close> and \<open>set_permanent_hold\<close> transmit \<open>hspHome\<close> and
  \<open>cspHome\<close> rounded to one decimal place, whether the caller supplied them or they were
  defaulted from the cache; \<open>set_away\<close> rounds each of \<open>hspAway\<close> and \<open>cspAway\<close> that it
  defaults from the cache, also when the caller supplies the other one.
\<close>

theorem setpoints_rounded:
  assumes "cached s index ''id'' = Inr (JStr dev)" and "access_token s = JStr tok"
  shows "((if heat_temp = JNull then cached s index ''hspHome'' else Inr heat_temp) = Inr h \<and>
          py_round1 h = Inr rh \<and>
          (if cool_temp = JNull then cached s index ''cspHome'' else Inr cool_temp) = Inr c \<and>
          py_round1 c = Inr rc \<longrightarrow>
            ((if hold_duration = JNull then cached s index ''schedOverrideDuration''
              else Inr hold_duration) = Inr d \<longrightarrow>
               take 1 (transmitted s
                         (snd (set_temp_hold s index cool_temp heat_temp hold_duration))) =
                 [put_request dev tok
                    (JObj [(''hspHome'', rh), (''cspHome'', rc), (''schedOverride'', JInt 1),
                           (''schedOverrideDuration'', d)])]) \<and>
            take 1 (transmitted s (snd (set_permanent_hold s index cool_temp heat_temp))) =
              [put_request dev tok
                 (JObj [(''hspHome'', rh), (''cspHome'', rc), (''schedOverride'', JInt 0),
                        (''schedEnabled'', JBool False)])] \<and>
            one_decimal rh \<and> one_decimal rc) \<and>
         ((away_heat = JNull \<longrightarrow>
             cached s index ''hspAway'' = Inr ha \<and> py_round1 ha = Inr rha) \<and>
          (away_cool = JNull \<longrightarrow>
             cached s index ''cspAway'' = Inr ca \<and> py_round1 ca = Inr rca) \<longrightarrow>
            (\<exists>body. take 1 (transmitted s (snd (set_away s index mode away_heat away_cool))) =
                      [put_request dev tok (JObj body)] \<and>
                    (away_heat = JNull \<longrightarrow>
                       map_of body ''hspAway'' = Some rha \<and> one_decimal rha) \<and>
                    (away_cool = JNull \<longrightarrow>
                       map_of body ''cspAway'' = Some rca \<and> one_decimal rca)))"
proof (intro conjI impI)
  assume a: "(if heat_temp = JNull then cached s index ''hspHome'' else Inr heat_temp) = Inr h \<and>
          py_round1 h = Inr rh \<and>
          (if cool_temp = JNull then cached s index ''cspHome'' else Inr cool_temp) = Inr c \<and>
          py_round1 c = Inr rc"
  then have h: "(if heat_temp = JNull then cached s index ''hspHome'' else Inr heat_temp) = Inr h"
    and rh: "py_round1 h = Inr rh"
    and c: "(if cool_temp = JNull then cached s index ''cspHome'' else Inr cool_temp) = Inr c"
    and rc: "py_round1 c = Inr rc" by blast+
  show "take 1 (transmitted s (snd (set_permanent_hold s index cool_temp heat_temp))) =
              [put_request dev tok
                 (JObj [(''hspHome'', rh), (''cspHome'', rc), (''schedOverride'', JInt 0),
                        (''schedEnabled'', JBool False)])]"
    by (rule set_permanent_hold_transmits [OF assms c h rh rc])
  show "one_decimal rh" by (rule py_round1_one_decimal [OF rh])
  show "one_decimal rc" by (rule py_round1_one_decimal [OF rc])
  assume d: "(if hold_duration = JNull then cached s index ''schedOverrideDuration''
              else Inr hold_duration) = Inr d"
  show "take 1 (transmitted s
                         (snd (set_temp_hold s index cool_temp heat_temp hold_duration))) =
                 [put_request dev tok
                    (JObj [(''hspHome'', rh), (''cspHome'', rc), (''schedOverride'', JInt 1),
                           (''schedOverrideDuration'', d)])]"
    by (rule set_temp_hold_transmits [OF assms d c h rh rc])
next
  assume b: "(away_heat = JNull \<longrightarrow>
             cached s index ''hspAway'' = Inr ha \<and> py_round1 ha = Inr rha) \<and>
          (away_cool = JNull \<longrightarrow>
             cached s index ''cspAway'' = Inr ca \<and> py_round1 ca = Inr rca)"
  then have t: "take 1 (transmitted s (snd (set_away s index mode away_heat away_cool))) =
           [put_request dev tok
              (JObj [(''geofencingAway'', mode),
                     (''hspAway'', if away_heat = JNull then rha else away_heat),
                     (''cspAway'', if away_cool = JNull then rca else away_cool)])]"
    by (intro set_away_defaults [OF assms]) blast+
  have "away_heat = JNull \<longrightarrow> one_decimal rha"
    using b py_round1_one_decimal [of ha rha] by blast
  moreover have "away_cool = JNull \<longrightarrow> one_decimal rca"
    using b py_round1_one_decimal [of ca rca] by blast
  ultimately show "\<exists>body. take 1 (transmitted s (snd (set_away s index mode away_heat away_cool))) =
                      [put_request dev tok (JObj body)] \<and>
                    (away_heat = JNull \<longrightarrow>
                       map_of body ''hspAway'' = Some rha \<and> one_decimal rha) \<and>
                    (away_cool = JNull \<longrightarrow>
                       map_of body ''cspAway'' = Some rca \<and> one_decimal rca)"
    using t
    by (intro exI [of _ "[(''geofencingAway'', mode),
                     (''hspAway'', if away_heat = JNull then rha else away_heat),
                     (''cspAway'', if away_cool = JNull then rca else away_cool)]"]) simp
qed

lemma demo_effective:
  "(if JFloat (495 / 8) = JNull then cached demo_session (JInt 0) ''hspHome''
    else Inr (JFloat (495 / 8))) = Inr (JFloat (495 / 8))"
  "(if JNull = JNull then cached demo_session (JInt 0) ''cspHome'' else Inr JNull)
     = Inr (JInt 75)"
  "(if JNull = JNull then cached demo_session (JInt 0) ''schedOverrideDuration''
    else Inr JNull) = Inr (JInt 60)"
  by (simp_all add: demo_cached)

theorem setpoints_rounded_witness:
  "cached demo_session (JInt 0) ''id'' = Inr (JStr ''dev1'') \<and>
   access_token demo_session = JStr ''tok'' \<and>
   (if JFloat (495 / 8) = JNull then cached demo_session (JInt 0) ''hspHome''
    else Inr (JFloat (495 / 8))) = Inr (JFloat (495 / 8)) \<and>
   py_round1 (JFloat (495 / 8)) = Inr (JFloat (619 / 10)) \<and>
   (if JNull = JNull then cached demo_session (JInt 0) ''cspHome'' else Inr JNull)
     = Inr (JInt 75) \<and>
   py_round1 (JInt 75) = Inr (JInt 75) \<and>
   (if JNull = JNull then cached demo_session (JInt 0) ''schedOverrideDuration''
    else Inr JNull) = Inr (JInt 60) \<and>
   cached demo_session (JInt 0) ''hspAway'' = Inr (JFloat (495 / 8)) \<and>
   JFloat (301 / 4) \<noteq> JNull \<and>
   take 1 (transmitted demo_session
      (snd (set_temp_hold demo_session (JInt 0) JNull (JFloat (495 / 8)) JNull))) =
      [put_request ''dev1'' ''tok''
         (JObj [(''hspHome'', JFloat (619 / 10)), (''cspHome'', JInt 75),
                (''schedOverride'', JInt 1), (''schedOverrideDuration'', JInt 60)])] \<and>
   take 1 (transmitted demo_session
      (snd (set_permanent_hold demo_session (JInt 0) JNull (JFloat (495 / 8))))) =
      [put_request ''dev1'' ''tok''
         (JObj [(''hspHome'', JFloat (619 / 10)), (''cspHome'', JInt 75),
                (''schedOverride'', JInt 0), (''schedEnabled'', JBool False)])] \<and>
   one_decimal (JFloat (619 / 10)) \<and> one_decimal (JInt 75) \<and>
   (\<exists>body. take 1 (transmitted demo_session
              (snd (set_away demo_session (JInt 0) (JBool True) JNull (JFloat (301 / 4))))) =
            [put_request ''dev1'' ''tok'' (JObj body)] \<and>
          map_of body ''hspAway'' = Some (JFloat (619 / 10)))"
proof -
  have away: "JNull = JNull \<longrightarrow>
      cached demo_session (JInt 0) ''hspAway'' = Inr (JFloat (495 / 8)) \<and>
      py_round1 (JFloat (495 / 8)) = Inr (JFloat (619 / 10))"
    using demo_cached(5) demo_round(3) by blast
  have supplied: "JFloat (301 / 4) = JNull \<longrightarrow>
      cached demo_session (JInt 0) ''cspAway'' = Inr (JFloat (165 / 2)) \<and>
      py_round1 (JFloat (165 / 2)) = Inr (JFloat (165 / 2))"
    by simp
  have given: "JFloat (301 / 4) \<noteq> JNull" by simp
  from demo_cached(1) demo_cached(5) demo_cached(9) demo_effective demo_round(2) demo_round(3)
    away supplied given
    setpoints_rounded [OF demo_cached(1) demo_cached(9),
      of "JFloat (495 / 8)" "JFloat (495 / 8)" "JFloat (619 / 10)" JNull "JInt 75" "JInt 75"
         JNull "JInt 60" JNull "JFloat (495 / 8)" "JFloat (619 / 10)" "JFloat (301 / 4)"
         "JFloat (165 / 2)" "JFloat (165 / 2)" "JBool True"]
  show ?thesis by blast
qed

section \<open>The retry discipline and the failure signal\<close>

text \<open>
  Claim C1, evaluated where it fails. The server answers the device list with \<open>401\<close>
  three times, each refresh in between succeeds, and the fourth answer is a list:
  \<open>get_thermostats\<close> issues four attempts and returns the cache. In the same way
  \<open>get_thermostat_info\<close> issues three attempts. \<open>make_request\<close> stops after one refresh,
  but its second call (lines 244-245) has its arguments in the wrong places and raises
  \<open>TypeError\<close> before it sends anything.
\<close>

theorem retries_not_bounded:
  "map req_url (sent (snd (get_thermostats (demo_session\<lparr>transport :=
      [Some expired, Some fresh_token, Some expired, Some fresh_token,
       Some expired, Some fresh_token, Some (Response 200 (Some (JArr [])))]\<rparr>)))) =
     [''https://api.daikinskyport.com/devices'',
      ''https://api.daikinskyport.com/users/auth/token'',
      ''https://api.daikinskyport.com/devices'',
      ''https://api.daikinskyport.com/users/auth/token'',
      ''https://api.daikinskyport.com/devices'',
      ''https://api.daikinskyport.com/users/auth/token'',
      ''https://api.daikinskyport.com/devices''] \<and>
   fst (get_thermostats (demo_session\<lparr>transport :=
      [Some expired, Some fresh_token, Some expired, Some fresh_token,
       Some expired, Some fresh_token, Some (Response 200 (Some (JArr [])))]\<rparr>)) =
     Inr (Some [demo_thermostat]) \<and>
   map req_url (sent (snd (get_thermostat_info (JStr ''dev1'') (demo_session\<lparr>transport :=
      [Some expired, Some fresh_token, Some expired, Some fresh_token,
       Some (Response 200 (Some (JObj [])))]\<rparr>)))) =
     [''https://api.daikinskyport.com/deviceData/dev1'',
      ''https://api.daikinskyport.com/users/auth/token'',
      ''https://api.daikinskyport.com/deviceData/dev1'',
      ''https://api.daikinskyport.com/users/auth/token'',
      ''https://api.daikinskyport.com/deviceData/dev1''] \<and>
   map req_url (sent (snd (make_request
      (demo_session\<lparr>transport := [Some expired, Some fresh_token, Some (Response 200 None)]\<rparr>)
      (JInt 0) (JObj [(''mode'', JInt 1)]) ''set HVAC mode'' 0))) =
     [''https://api.daikinskyport.com/deviceData/dev1'',
      ''https://api.daikinskyport.com/users/auth/token''] \<and>
   fst (make_request
      (demo_session\<lparr>transport := [Some expired, Some fresh_token, Some (Response 200 None)]\<rparr>)
      (JInt 0) (JObj [(''mode'', JInt 1)]) ''set HVAC mode'' 0) = Inl TypeError"
  by code_simp

text \<open>
  Claim C2, evaluated where it fails. A connection failure during the refresh of line
  111 leaves \<open>get_thermostats\<close> as a \<open>RequestException\<close>; a device whose detail cannot be
  fetched makes line 135 raise \<open>TypeError\<close>; an error page that is not JSON makes line
  249 raise; the second call of \<open>make_request\<close> raises \<open>TypeError\<close>; a configuration file
  that is not JSON makes \<open>config_from_file\<close> raise.
\<close>

theorem failures_raise:
  "fst (get_thermostats (demo_session\<lparr>transport := [Some expired, None]\<rparr>)) =
     Inl RequestException \<and>
   fst (get_thermostats (demo_session\<lparr>transport :=
      [Some (Response 200 (Some (JArr [JObj [(''id'', JStr ''dev1''), (''name'', JStr ''Hall'')]]))),
       None]\<rparr>)) = Inl TypeError \<and>
   fst (set_hvac_mode (demo_session\<lparr>transport := [Some (Response 502 None)]\<rparr>)
          (JInt 0) (JInt 1)) = Inl JSONDecodeError \<and>
   fst (set_hvac_mode (demo_session\<lparr>transport := [Some expired, Some fresh_token]\<rparr>)
          (JInt 0) (JInt 1)) = Inl TypeError \<and>
   fst (config_from_file demo_json ''broken.conf'' JNull demo_disk) = Inl JSONDecodeError"
  by code_simp

section \<open>The configuration file\<close>

text \<open>
  Claim C8 as stated fails. A credential mapping written to \<open>/dev/null\<close> is written
  with success (the call returns \<open>True\<close>), but the path is no regular file, so the read
  takes the branch of line 35 and gives the empty mapping.
\<close>

theorem config_round_trip_fails:
  "fst (config_from_file demo_json ''/dev/null''
          (JObj [(''EMAIL'', JStr ''new@example.org'')]) demo_disk) = Inr (JBool True) \<and>
   ''/dev/null'' \<notin> set (read_denied demo_disk) \<and>
   loads demo_json (dumps demo_json (JObj [(''EMAIL'', JStr ''new@example.org'')])) =
     Some (JObj [(''EMAIL'', JStr ''new@example.org'')]) \<and>
   fst (config_from_file demo_json ''/dev/null'' JNull
          (snd (config_from_file demo_json ''/dev/null''
                  (JObj [(''EMAIL'', JStr ''new@example.org'')]) demo_disk))) =
     Inr (JObj []) \<and>
   JObj [] \<noteq> JObj [(''EMAIL'', JStr ''new@example.org'')]"
  by (simp add: config_from_file_def isfile_def demo_disk_def demo_json_def demo_documents_def)

text \<open>
  Claim C8, amended. For every credential mapping (a mapping that is not empty) that
  \<open>json.loads(json.dumps(config))\<close> gives back, and every filename that is a regular file
  after the write and can be opened for reading: if the write returns \<open>True\<close>, reading
  the filename back gives the mapping written. And reading a filename that names no
  regular file gives the empty mapping.
\<close>

theorem config_round_trip:
  "(d \<noteq> [] \<and> loads lib (dumps lib (JObj d)) = Some (JObj d) \<and>
    fst (config_from_file lib filename (JObj d) fs) = Inr (JBool True) \<and>
    isfile (snd (config_from_file lib filename (JObj d) fs)) filename \<and>
    filename \<notin> set (read_denied fs) \<longrightarrow>
      fst (config_from_file lib filename JNull
             (snd (config_from_file lib filename (JObj d) fs))) = Inr (JObj d)) \<and>
   (\<not> isfile fs filename \<longrightarrow> fst (config_from_file lib filename JNull fs) = Inr (JObj []))"
  by (auto simp: config_from_file_def isfile_def read_text_def
           split: if_splits option.splits fnode.splits)

theorem config_round_trip_witness:
  "[(''EMAIL'', JStr ''new@example.org'')] \<noteq> [] \<and>
   loads demo_json (dumps demo_json (JObj [(''EMAIL'', JStr ''new@example.org'')])) =
     Some (JObj [(''EMAIL'', JStr ''new@example.org'')]) \<and>
   fst (config_from_file demo_json ''daikinskyport.conf''
          (JObj [(''EMAIL'', JStr ''new@example.org'')]) demo_disk) = Inr (JBool True) \<and>
   isfile (snd (config_from_file demo_json ''daikinskyport.conf''
                  (JObj [(''EMAIL'', JStr ''new@example.org'')]) demo_disk))
     ''daikinskyport.conf'' \<and>
   ''daikinskyport.conf'' \<notin> set (read_denied demo_disk) \<and>
   fst (config_from_file demo_json ''daikinskyport.conf'' JNull
          (snd (config_from_file demo_json ''daikinskyport.conf''
                  (JObj [(''EMAIL'', JStr ''new@example.org'')]) demo_disk))) =
     Inr (JObj [(''EMAIL'', JStr ''new@example.org'')]) \<and>
   \<not> isfile demo_disk ''absent.conf'' \<and>
   fst (config_from_file demo_json ''absent.conf'' JNull demo_disk) = Inr (JObj [])"
proof -
  have a: "[(''EMAIL'', JStr ''new@example.org'')] \<noteq> []" by simp
  have l: "loads demo_json (dumps demo_json (JObj [(''EMAIL'', JStr ''new@example.org'')])) =
     Some (JObj [(''EMAIL'', JStr ''new@example.org'')])"
    by (simp add: demo_json_def demo_documents_def)
  have b: "fst (config_from_file demo_json ''daikinskyport.conf''
                 (JObj [(''EMAIL'', JStr ''new@example.org'')]) demo_disk) = Inr (JBool True)"
    by (simp add: config_from_file_def demo_disk_def)
  have i: "isfile (snd (config_from_file demo_json ''daikinskyport.conf''
                  (JObj [(''EMAIL'', JStr ''new@example.org'')]) demo_disk))
     ''daikinskyport.conf''"
    by (simp add: config_from_file_def isfile_def demo_disk_def)
  have c: "''daikinskyport.conf'' \<notin> set (read_denied demo_disk)"
    by (simp add: demo_disk_def)
  have d: "\<not> isfile demo_disk ''absent.conf''"
    by (simp add: isfile_def demo_disk_def)
  from a l b i c d
    config_round_trip [of "[(''EMAIL'', JStr ''new@example.org'')]" demo_json
       "''daikinskyport.conf''" demo_disk]
    config_round_trip [of "[]" demo_json "''absent.conf''" demo_disk]
  show ?thesis by blast
qed

section \<open>The device cache\<close>

lemma dict_get_dev_id: "dict_get e ''id'' = Inr v \<longleftrightarrow> dev_id e = Some v"
  by (simp add: dict_get_def dev_id_def split: option.split)

lemma dict_get_dev_id_None: "dict_get e ''id'' = Inl x \<longleftrightarrow> dev_id e = None \<and> x = KeyError"
  by (auto simp add: dict_get_def dev_id_def split: option.split)

lemma map_of_dict_set: "map_of (dict_set k v d) k' = (if k' = k then Some v else map_of d k')"
  by (induction d) auto

lemma dev_id_dict_set: "dev_id (dict_set ''id'' tid d) = Some tid"
  by (simp add: dev_id_def map_of_dict_set)


lemma overwrite_loop_ids:
  "dev_id info = Some tid \<Longrightarrow>
   map dev_id (snd (overwrite_loop tid info idxs ths ow)) = map dev_id ths"
proof (induction idxs arbitrary: ths ow)
  case Nil
  then show ?case by simp
next
  case (Cons i idxs)
  have "map dev_id (ths[i := info]) = map dev_id ths" if "dev_id (ths ! i) = Some tid"
  proof -
    have "(map dev_id ths)[i := Some tid] = map dev_id ths"
      using that by (cases "i < length ths") (simp_all add: list_update_same_conv list_update_beyond not_less)
    then show ?thesis using Cons.prems by (simp add: map_update)
  qed
  then show ?case using Cons
    by (auto split: sum.split simp: dict_get_dev_id)
qed

text \<open>The scan on a cache whose entries all carry an \<open>id\<close>.\<close>

lemma overwrite_loop_upt:
  assumes "ids_ok ths" and "dev_id info = Some tid" and "k \<le> length ths"
  shows "overwrite_loop tid info [k..<length ths] ths ow =
           (Inr (ow \<or> Some tid \<in> set (map dev_id (drop k ths))),
            take k ths @ map (\<lambda>e. if dev_id e = Some tid then info else e) (drop k ths))"
  using assms
proof (induction "length ths - k" arbitrary: k ths ow)
  case 0
  then show ?case by simp
next
  case (Suc n)
  then have k: "k < length ths" by simp
  obtain cid where cid: "dev_id (ths ! k) = Some cid"
    using Suc.prems(1) k by (auto simp: ids_ok_def list_all_length)
  have upt: "[k..<length ths] = k # [Suc k..<length ths]"
    using k by (simp add: upt_conv_Cons)
  have drop: "drop k ths = ths ! k # drop (Suc k) ths"
    using k by (simp add: Cons_nth_drop_Suc)
  show ?case
  proof (cases "tid = cid")
    case True
    let ?ths = "ths[k := info]"
    have ok: "ids_ok ?ths"
      using Suc.prems(1,2) k
      by (auto simp: ids_ok_def list_all_length nth_list_update)
    have n: "n = length ?ths - Suc k" using Suc.hyps(2) by simp
    have IH: "overwrite_loop tid info [Suc k..<length ?ths] ?ths True =
           (Inr (True \<or> Some tid \<in> set (map dev_id (drop (Suc k) ?ths))),
            take (Suc k) ?ths @ map (\<lambda>e. if dev_id e = Some tid then info else e) (drop (Suc k) ?ths))"
      using Suc.hyps(1) [OF n ok Suc.prems(2)] k by simp
    have t: "take (Suc k) ?ths = take k ths @ [info]"
      using k by (simp add: take_Suc_conv_app_nth)
    show ?thesis
      using IH k cid True
      by (simp add: upt drop dict_get_dev_id [THEN iffD2] t)
  next
    case False
    have n: "n = length ths - Suc k" using Suc.hyps(2) by simp
    have IH: "overwrite_loop tid info [Suc k..<length ths] ths ow =
           (Inr (ow \<or> Some tid \<in> set (map dev_id (drop (Suc k) ths))),
            take (Suc k) ths @ map (\<lambda>e. if dev_id e = Some tid then info else e) (drop (Suc k) ths))"
      using Suc.hyps(1) [OF n Suc.prems(1,2)] k by simp
    have t: "take (Suc k) ths = take k ths @ [ths ! k]"
      using k by (simp add: take_Suc_conv_app_nth)
    show ?thesis
      using IH k cid False
      by (auto simp add: upt drop dict_get_dev_id [THEN iffD2] t)
  qed
qed

lemma upsert_ids_ok:
  assumes "ids_ok ths" and "dev_id info = Some tid"
  shows "upsert tid info ths = (Inr (), upsert_spec info ths)"
proof -
  have "map (\<lambda>e. if dev_id e = Some tid then info else e) ths = ths"
    if "Some tid \<notin> dev_id ` set ths"
    using that by (intro map_idI) force
  then show ?thesis
    using overwrite_loop_upt [OF assms, of 0 False] assms(2)
    by (simp add: upsert_def upsert_spec_def)
qed

lemma refresh_tokens_transport_mono:
  "length (transport s) \<le> n \<Longrightarrow> length (transport (snd (refresh_tokens s))) \<le> n"
proof -
  have sent_one: "length (transport (snd (http req s))) \<le> n"
    if "length (transport s) \<le> n" for req s n
    using that by (auto simp add: http_def split: list.split)
  have requested: "length (transport (snd (request_tokens s))) \<le> n"
    if "length (transport s) \<le> n" for s n
    using that by (simp add: request_tokens_def case_prod_beta sent_one write_tokens_to_file_frame
                         split: option.split sum.split)
  show "length (transport s) \<le> n \<Longrightarrow> length (transport (snd (refresh_tokens s))) \<le> n"
    by (simp add: refresh_tokens_def case_prod_beta sent_one write_tokens_to_file_frame requested
             split: option.split sum.split)
qed

lemma get_thermostat_info_thermostats:
  "thermostats (snd (get_thermostat_info deviceid s)) = thermostats s"
proof (induction "length (transport s)" arbitrary: s rule: less_induct)
  case less
  show ?case
  proof (cases "transport s")
    case Nil
    then show ?thesis
      by (subst get_thermostat_info.simps) (simp add: http_def split: sum.split)
  next
    case (Cons r rs)
    have IH: "thermostats (snd (get_thermostat_info deviceid s')) = thermostats s'"
      if "length (transport s') \<le> length rs" for s'
      using less [of s'] that Cons by simp
    show ?thesis
      by (subst get_thermostat_info.simps)
         (simp add: http_def Cons case_prod_beta IH refresh_tokens_transport_mono
                    refresh_tokens_frame
               split: sum.split option.split)
  qed
qed


lemma upsert_ids_mono:
  "dev_id info = Some tid \<Longrightarrow> prefix ys (map dev_id ths) \<Longrightarrow>
   prefix ys (map dev_id (snd (upsert tid info ths)))"
  using overwrite_loop_ids [of info tid "[0..<length ths]" ths False]
  by (simp add: upsert_def case_prod_beta split: sum.split)

lemma overwrite_loop_Inr:
  "fst (overwrite_loop tid info idxs ths ow) = Inr b \<Longrightarrow> dev_id info = Some tid \<Longrightarrow>
   i \<in> set idxs \<Longrightarrow> i < length ths \<Longrightarrow> dev_id (ths ! i) \<noteq> None"
proof (induction idxs arbitrary: ths ow)
  case Nil
  then show ?case by simp
next
  case (Cons j idxs)
  from Cons.prems(1) obtain cid where cid: "dev_id (ths ! j) = Some cid"
    by (auto simp: dict_get_dev_id split: sum.splits)
  show ?case
  proof (cases "i = j")
    case True
    then show ?thesis using cid by simp
  next
    case False
    then have i: "i \<in> set idxs" using Cons.prems(3) by simp
    show ?thesis
    proof (cases "tid = cid")
      case True
      then have "fst (overwrite_loop tid info idxs (ths[j := info]) True) = Inr b"
        using Cons.prems(1) cid by (simp add: dict_get_dev_id [THEN iffD2])
      from Cons.IH [OF this Cons.prems(2) i] Cons.prems(4) False show ?thesis
        by simp
    next
      case False
      then have "fst (overwrite_loop tid info idxs ths ow) = Inr b"
        using Cons.prems(1) cid by (simp add: dict_get_dev_id [THEN iffD2])
      from Cons.IH [OF this Cons.prems(2) i Cons.prems(4)] show ?thesis .
    qed
  qed
qed

lemma upsert_Inr:
  assumes "upsert tid info ths = (Inr u, ths')" and "dev_id info = Some tid"
  shows "ids_ok ths \<and> ths' = upsert_spec info ths"
proof -
  from assms(1) obtain b where "fst (overwrite_loop tid info [0..<length ths] ths False) = Inr b"
    by (auto simp: upsert_def split: prod.splits sum.splits)
  from overwrite_loop_Inr [OF this assms(2)] have ok: "ids_ok ths"
    by (auto simp: ids_ok_def list_all_length)
  from upsert_ids_ok [OF ok assms(2)] assms(1) show ?thesis using ok by simp
qed

lemma dev_id_upsert_spec:
  "map dev_id (upsert_spec info ths) =
     (if dev_id info \<in> set (map dev_id ths) then map dev_id ths
      else map dev_id ths @ [dev_id info])"
  by (auto simp: upsert_spec_def intro!: map_idI [THEN trans [OF _ sym], OF refl])

lemma for_thermostats_cache:
  assumes step: "\<And>tid info ths. dev_id info = Some tid \<Longrightarrow> P ths \<Longrightarrow> P (snd (upsert tid info ths))"
  shows "P (thermostats s) \<Longrightarrow> P (thermostats (snd (for_thermostats items s)))"
proof (induction items arbitrary: s)
  case Nil
  then show ?case by simp
next
  case (Cons it rest)
  show ?case
    by (simp add: case_prod_beta get_thermostat_info_thermostats Cons step dev_id_dict_set
          split: sum.split)
qed

lemma get_thermostats_cache:
  assumes loop: "\<And>items s. P (thermostats s) \<Longrightarrow> P (thermostats (snd (for_thermostats items s)))"
  shows "P (thermostats s) \<Longrightarrow> P (thermostats (snd (get_thermostats s)))"
proof (induction "length (transport s)" arbitrary: s rule: less_induct)
  case less
  show ?case
  proof (cases "transport s")
    case Nil
    then show ?thesis using less.prems
      by (subst get_thermostats.simps) (simp add: http_def split: sum.split)
  next
    case (Cons r rs)
    have IH: "P (thermostats (snd (get_thermostats s')))"
      if "length (transport s') \<le> length rs" "P (thermostats s')" for s'
      using less.hyps [of s'] that Cons by simp
    show ?thesis using less.prems
      by (subst get_thermostats.simps)
         (simp add: http_def Cons case_prod_beta IH refresh_tokens_transport_mono
                    refresh_tokens_frame loop
               split: sum.split option.split)
  qed
qed


lemma get_thermostats_ids_mono:
  "prefix ys (map dev_id (thermostats s)) \<Longrightarrow>
   prefix ys (map dev_id (thermostats (snd (get_thermostats s))))"
  by (rule get_thermostats_cache [where P = "\<lambda>c. prefix ys (map dev_id c)"])
     (rule for_thermostats_cache [where P = "\<lambda>c. prefix ys (map dev_id c)"],
      rule upsert_ids_mono)

lemma ids_ok_upsert_spec:
  "ids_ok ths \<Longrightarrow> dev_id info \<noteq> None \<Longrightarrow> ids_ok (upsert_spec info ths)"
  by (auto simp: ids_ok_def upsert_spec_def list_all_iff)

lemma upsert_invariant:
  assumes "dev_id info = Some tid" and "ids_ok ths \<and> distinct (map dev_id ths)"
  shows "ids_ok (snd (upsert tid info ths)) \<and> distinct (map dev_id (snd (upsert tid info ths)))"
  using assms
  by (simp add: upsert_ids_ok [OF _ assms(1)] ids_ok_upsert_spec dev_id_upsert_spec)

lemma get_thermostats_invariant:
  "ids_ok (thermostats s) \<and> distinct (map dev_id (thermostats s)) \<Longrightarrow>
   ids_ok (thermostats (snd (get_thermostats s))) \<and>
   distinct (map dev_id (thermostats (snd (get_thermostats s))))"
  by (rule get_thermostats_cache [where P = "\<lambda>c. ids_ok c \<and> distinct (map dev_id c)"])
     (rule for_thermostats_cache [where P = "\<lambda>c. ids_ok c \<and> distinct (map dev_id c)"],
      rule upsert_invariant)


section \<open>The order of the cache\<close>

lemma get_thermostat_info_frame_gen:
  assumes "\<And>s tr. f (s\<lparr>transport := tr\<rparr>) = f s"
    and "\<And>s se. f (s\<lparr>sent := se\<rparr>) = f s"
    and "\<And>s b. f (s\<lparr>authenticated := b\<rparr>) = f s"
    and "\<And>s. f (snd (refresh_tokens s)) = f s"
  shows "f (snd (get_thermostat_info deviceid s)) = f s"
proof (induction "length (transport s)" arbitrary: s rule: less_induct)
  case less
  show ?case
  proof (cases "transport s")
    case Nil
    then show ?thesis
      by (subst get_thermostat_info.simps) (simp add: http_def assms split: sum.split)
  next
    case (Cons r rs)
    have IH: "f (snd (get_thermostat_info deviceid s')) = f s'"
      if "length (transport s') \<le> length rs" for s'
      using less [of s'] that Cons by simp
    show ?thesis
      by (subst get_thermostat_info.simps)
         (simp add: http_def Cons case_prod_beta IH refresh_tokens_transport_mono assms
               split: sum.split option.split)
  qed
qed

lemma write_tokens_to_file_thermostatlist:
  "thermostatlist (snd (write_tokens_to_file s)) = thermostatlist s"
  by (simp add: write_tokens_to_file_def Let_def case_prod_beta
               split: option.split sum.split)

lemma request_tokens_thermostatlist:
  "thermostatlist (snd (request_tokens s)) = thermostatlist s"
  by (simp add: request_tokens_def case_prod_beta http_snd write_tokens_to_file_thermostatlist
               split: option.split sum.split)

lemma refresh_tokens_thermostatlist:
  "thermostatlist (snd (refresh_tokens s)) = thermostatlist s"
  by (simp add: refresh_tokens_def case_prod_beta http_snd write_tokens_to_file_thermostatlist
          request_tokens_thermostatlist
               split: option.split sum.split)

lemma get_thermostat_info_frame:
  "user_email (snd (get_thermostat_info deviceid s)) = user_email s"
  "user_password (snd (get_thermostat_info deviceid s)) = user_password s"
  "file_based_config (snd (get_thermostat_info deviceid s)) = file_based_config s"
  "config_filename (snd (get_thermostat_info deviceid s)) = config_filename s"
  "thermostatlist (snd (get_thermostat_info deviceid s)) = thermostatlist s"
  by (rule get_thermostat_info_frame_gen;
      simp add: refresh_tokens_frame refresh_tokens_thermostatlist)+

lemma get_thermostat_info_transport_mono:
  "length (transport s) \<le> n \<Longrightarrow> length (transport (snd (get_thermostat_info deviceid s))) \<le> n"
proof (induction "length (transport s)" arbitrary: s rule: less_induct)
  case less
  show ?case
  proof (cases "transport s")
    case Nil
    then show ?thesis
      by (subst get_thermostat_info.simps) (simp add: http_def split: sum.split)
  next
    case (Cons r rs)
    have IH: "length (transport (snd (get_thermostat_info deviceid s'))) \<le> n"
      if "length (transport s') \<le> length rs" for s'
      using less.hyps [of s'] that Cons less.prems by simp
    show ?thesis using less.prems
      by (subst get_thermostat_info.simps)
         (simp add: http_def Cons case_prod_beta IH refresh_tokens_transport_mono
               split: sum.split option.split)
  qed
qed

lemma for_thermostats_ConsE:
  assumes "for_thermostats (it # rest) s = (Inr u, s')"
  obtains tid fetched nm named where
    "getitem it ''id'' = Inr tid"
    "fst (get_thermostat_info tid s) = Inr fetched"
    "getitem it ''name'' = Inr nm"
    "setitem fetched ''name'' nm = Inr named"
    "ids_ok (thermostats s)"
    "for_thermostats rest
       ((snd (get_thermostat_info tid s))
          \<lparr>thermostats := upsert_spec (dict_set ''id'' tid named) (thermostats s)\<rparr>) = (Inr u, s')"
proof -
  from assms obtain tid fetched nm named where a:
    "getitem it ''id'' = Inr tid"
    "fst (get_thermostat_info tid s) = Inr fetched"
    "getitem it ''name'' = Inr nm"
    "setitem fetched ''name'' nm = Inr named"
    and b: "\<exists>w. fst (upsert tid (dict_set ''id'' tid named) (thermostats s)) = Inr w"
    and c: "for_thermostats rest
       ((snd (get_thermostat_info tid s))
          \<lparr>thermostats := snd (upsert tid (dict_set ''id'' tid named) (thermostats s))\<rparr>) = (Inr u, s')"
    by (auto simp: case_prod_beta get_thermostat_info_thermostats split: sum.splits)
  from b obtain w ths where "upsert tid (dict_set ''id'' tid named) (thermostats s) = (Inr w, ths)"
    by (cases "upsert tid (dict_set ''id'' tid named) (thermostats s)") auto
  from upsert_Inr [OF this dev_id_dict_set] this c a that show ?thesis
    by simp
qed

lemma dev_id_upsert_spec_add_new:
  "map dev_id (upsert_spec info ths) = add_new (map dev_id ths) (dev_id info)"
  by (simp add: dev_id_upsert_spec add_new_def)

lemma for_thermostats_ids:
  "for_thermostats items s = (Inr u, s') \<Longrightarrow>
   map dev_id (thermostats s') =
     foldl add_new (map dev_id (thermostats s)) (map listed_id items)"
proof (induction items arbitrary: s)
  case Nil
  then show ?case by simp
next
  case (Cons it rest)
  from Cons.prems show ?case
  proof (rule for_thermostats_ConsE)
    fix tid fetched nm named
    assume a: "getitem it ''id'' = Inr tid"
      and r: "for_thermostats rest
         ((snd (get_thermostat_info tid s))
            \<lparr>thermostats := upsert_spec (dict_set ''id'' tid named) (thermostats s)\<rparr>) = (Inr u, s')"
    from Cons.IH [OF r] a show ?thesis
      by (simp add: dev_id_upsert_spec_add_new dev_id_dict_set listed_id_def)
  qed
qed

lemma for_thermostats_ids_snd:
  "fst (for_thermostats items s) = Inr u \<Longrightarrow>
   map dev_id (thermostats (snd (for_thermostats items s))) =
     foldl add_new (map dev_id (thermostats s)) (map listed_id items)"
  using for_thermostats_ids [of items s u "snd (for_thermostats items s)"]
  by (cases "for_thermostats items s") simp

lemma for_thermostats_thermostatlist:
  "thermostatlist (snd (for_thermostats items s)) = thermostatlist s"
proof (induction items arbitrary: s)
  case Nil
  then show ?case by simp
next
  case (Cons it rest)
  show ?case
    by (simp add: case_prod_beta get_thermostat_info_frame Cons split: sum.split)
qed

lemma get_thermostats_ids:
  "fst (get_thermostats s) = Inr (Some c) \<longrightarrow>
   c = thermostats (snd (get_thermostats s)) \<and>
   map dev_id c =
     foldl add_new (map dev_id (thermostats s))
       (remote_ids (thermostatlist (snd (get_thermostats s))))"
proof (induction "length (transport s)" arbitrary: s rule: less_induct)
  case less
  show ?case
  proof (cases "transport s")
    case Nil
    show ?thesis
      by (simp only: get_thermostats.simps [of s])
         (simp add: http_def Nil split: sum.split)
  next
    case (Cons r rs)
    have IH: "c = thermostats (snd (get_thermostats s')) \<and>
       map dev_id c =
         foldl add_new (map dev_id (thermostats s'))
           (remote_ids (thermostatlist (snd (get_thermostats s'))))"
      if "length (transport s') \<le> length rs" "fst (get_thermostats s') = Inr (Some c)" for s'
      using less [of s'] that Cons by auto
    show ?thesis
      by (simp only: get_thermostats.simps [of s])
         (auto simp add: http_def Cons case_prod_beta refresh_tokens_transport_mono
                    refresh_tokens_frame for_thermostats_thermostatlist
                    for_thermostats_ids_snd remote_ids_def
               split: sum.split option.split dest!: IH [rotated])
  qed
qed

lemma fetches_Suc: "fetches (Suc n) s = snd (get_thermostats (fetches n s))"
  by (simp add: fetches_def)

lemma fetches_invariant:
  "ids_ok (thermostats s) \<and> distinct (map dev_id (thermostats s)) \<Longrightarrow>
   ids_ok (thermostats (fetches n s)) \<and> distinct (map dev_id (thermostats (fetches n s)))"
proof (induction n)
  case 0
  then show ?case by (simp add: fetches_def)
next
  case (Suc n)
  then show ?case
    using get_thermostats_invariant [of "fetches n s"] by (simp add: fetches_Suc)
qed

lemma fetches_ids_mono:
  "prefix (map dev_id (thermostats (fetches m s))) (map dev_id (thermostats (fetches (m + k) s)))"
proof (induction k)
  case 0
  then show ?case by simp
next
  case (Suc k)
  then show ?case
    using get_thermostats_ids_mono [of _ "fetches (m + k) s"] by (simp add: fetches_Suc)
qed

text \<open>
  Claim C10. Starting from an empty cache, after any number of calls of
  \<open>get_thermostats\<close> every cache entry carries an \<open>id\<close> and the ids are pairwise
  distinct; the ids held after \<open>m\<close> calls are a prefix of the ids held after any later
  call, so seen devices keep their relative order; and a call that succeeds leaves the
  old ids in place followed by the ids of the remote list that were not yet held, in
  remote-list order.
\<close>

theorem cache_ids_distinct_in_order:
  "(thermostats s0 = [] \<longrightarrow>
      ids_ok (thermostats (fetches n s0)) \<and>
      distinct (map dev_id (thermostats (fetches n s0)))) \<and>
   prefix (map dev_id (thermostats (fetches m s0)))
     (map dev_id (thermostats (fetches (m + k) s0))) \<and>
   (fst (get_thermostats s) = Inr (Some c) \<longrightarrow>
      c = thermostats (snd (get_thermostats s)) \<and>
      map dev_id c =
        foldl add_new (map dev_id (thermostats s))
          (remote_ids (thermostatlist (snd (get_thermostats s)))))"
proof (intro conjI impI)
  assume "thermostats s0 = []"
  then have "ids_ok (thermostats s0) \<and> distinct (map dev_id (thermostats s0))"
    by (simp add: ids_ok_def)
  from fetches_invariant [OF this]
  show "ids_ok (thermostats (fetches n s0))"
    and "distinct (map dev_id (thermostats (fetches n s0)))" by simp_all
next
  show "prefix (map dev_id (thermostats (fetches m s0)))
     (map dev_id (thermostats (fetches (m + k) s0)))"
    by (rule fetches_ids_mono)
next
  assume a: "fst (get_thermostats s) = Inr (Some c)"
  from get_thermostats_ids [of s c] a
  show "c = thermostats (snd (get_thermostats s))"
    and "map dev_id c =
        foldl add_new (map dev_id (thermostats s))
          (remote_ids (thermostatlist (snd (get_thermostats s))))" by auto
qed

lemma fresh_fetch:
  "thermostats fresh_session = []"
  "fst (get_thermostats fresh_session) =
     Inr (Some [[(''hspHome'', JInt 70), (''name'', JStr ''Attic''), (''id'', JStr ''dev2'')],
                [(''hspHome'', JInt 68), (''name'', JStr ''Hall''), (''id'', JStr ''dev1'')]])"
  "remote_ids (thermostatlist (snd (get_thermostats fresh_session))) =
     [Some (JStr ''dev2''), Some (JStr ''dev1'')]"
  by code_simp+

theorem cache_ids_distinct_in_order_witness:
  "thermostats fresh_session = [] \<and>
   ids_ok (thermostats (fetches 2 fresh_session)) \<and>
   distinct (map dev_id (thermostats (fetches 2 fresh_session))) \<and>
   fst (get_thermostats fresh_session) =
     Inr (Some [[(''hspHome'', JInt 70), (''name'', JStr ''Attic''), (''id'', JStr ''dev2'')],
                [(''hspHome'', JInt 68), (''name'', JStr ''Hall''), (''id'', JStr ''dev1'')]]) \<and>
   map dev_id [[(''hspHome'', JInt 70), (''name'', JStr ''Attic''), (''id'', JStr ''dev2'')],
               [(''hspHome'', JInt 68), (''name'', JStr ''Hall''), (''id'', JStr ''dev1'')]] =
     foldl add_new (map dev_id (thermostats fresh_session))
       (remote_ids (thermostatlist (snd (get_thermostats fresh_session)))) \<and>
   remote_ids (thermostatlist (snd (get_thermostats fresh_session))) =
     [Some (JStr ''dev2''), Some (JStr ''dev1'')]"
  using fresh_fetch
    cache_ids_distinct_in_order [of fresh_session 2 0 0 fresh_session
       "[[(''hspHome'', JInt 70), (''name'', JStr ''Attic''), (''id'', JStr ''dev2'')],
         [(''hspHome'', JInt 68), (''name'', JStr ''Hall''), (''id'', JStr ''dev1'')]]"]
  by blast

section \<open>The payloads of the cache\<close>

lemma http_answers:
  "set (transport s) \<subseteq> A \<Longrightarrow> set (transport (snd (http req s))) \<subseteq> A"
  by (auto simp add: http_def split: list.split)

lemma request_tokens_answers:
  "set (transport s) \<subseteq> A \<Longrightarrow> set (transport (snd (request_tokens s))) \<subseteq> A"
  by (simp add: request_tokens_def case_prod_beta http_answers write_tokens_to_file_frame
           split: option.split sum.split)

lemma refresh_tokens_answers:
  "set (transport s) \<subseteq> A \<Longrightarrow> set (transport (snd (refresh_tokens s))) \<subseteq> A"
  by (simp add: refresh_tokens_def case_prod_beta http_answers write_tokens_to_file_frame
                request_tokens_answers
           split: option.split sum.split)

lemma refresh_tokens_member:
  "x \<in> set (transport (snd (refresh_tokens s))) \<Longrightarrow> set (transport s) \<subseteq> A \<Longrightarrow> x \<in> A"
  using refresh_tokens_answers [of s A] by blast











section \<open>Two fetches of the same remote data\<close>

lemma write_tokens_to_file_fst:
  "fst (write_tokens_to_file s) =
     (case user_email s of
        None \<Rightarrow> Inl AttributeError
      | Some email \<Rightarrow>
          if file_based_config s
          then (case config_filename s of None \<Rightarrow> Inl TypeError | Some f \<Rightarrow> Inr ())
          else Inr ())"
  by (simp add: write_tokens_to_file_def config_from_file_def Let_def case_prod_beta
           split: option.split fnode.split)

lemma request_tokens_canon:
  "fst (request_tokens s) = fst (request_tokens (canon (ctl s))) \<and>
   ctl (snd (request_tokens s)) = ctl (snd (request_tokens (canon (ctl s))))"
  by (cases "user_email s"; cases "user_password s"; cases "transport s";
      simp add: request_tokens_def case_prod_beta http_def ctl_def canon_def
        write_tokens_to_file_fst write_tokens_to_file_frame 
        split: option.split sum.split)


lemma ctl_components:
  "ctl s = c \<Longrightarrow> transport s = fst c"
  "ctl s = c \<Longrightarrow> is_str (access_token s) = snd (snd (snd (snd (snd c))))"
  by (auto simp: ctl_def)

lemma request_tokens_abs:
  "fst (request_tokens s) = fst (abstracted request_tokens (ctl s))"
  "transport (snd (request_tokens s)) = fst (snd (abstracted request_tokens (ctl s)))"
  "is_str (access_token (snd (request_tokens s))) =
     snd (snd (snd (snd (snd (snd (abstracted request_tokens (ctl s)))))))"
  using request_tokens_canon [of s]
  by (simp_all add: abstracted_def ctl_components)

lemma refresh_tokens_canon:
  "fst (refresh_tokens s) = fst (refresh_tokens (canon (ctl s))) \<and>
   ctl (snd (refresh_tokens s)) = ctl (snd (refresh_tokens (canon (ctl s))))"
  by (cases "user_email s"; cases "transport s";
      simp add: refresh_tokens_def case_prod_beta http_def ctl_def canon_def
        write_tokens_to_file_fst write_tokens_to_file_frame request_tokens_abs
        request_tokens_frame
        split: option.split sum.split)

lemma refresh_tokens_abs:
  "fst (refresh_tokens s) = fst (abstracted refresh_tokens (ctl s))"
  "transport (snd (refresh_tokens s)) = fst (snd (abstracted refresh_tokens (ctl s)))"
  "is_str (access_token (snd (refresh_tokens s))) =
     snd (snd (snd (snd (snd (snd (abstracted refresh_tokens (ctl s)))))))"
  using refresh_tokens_canon [of s]
  by (simp_all add: abstracted_def ctl_components)

lemma abstracted_refresh_mono:
  "length (fst c) \<le> n \<Longrightarrow> length (fst (snd (abstracted refresh_tokens c))) \<le> n"
  using refresh_tokens_transport_mono [of "canon c" n]
  by (cases c) (simp add: abstracted_def ctl_def canon_def)

lemma get_thermostat_info_canon:
  "fst (get_thermostat_info d s) = fst (get_thermostat_info d (canon (ctl s))) \<and>
   ctl (snd (get_thermostat_info d s)) = ctl (snd (get_thermostat_info d (canon (ctl s))))"
proof (induction "length (transport s)" arbitrary: s rule: less_induct)
  case less
  show ?case
  proof (cases "transport s")
    case Nil
    show ?thesis
      by (cases "access_token s";
          simp only: get_thermostat_info.simps [of d s]
                     get_thermostat_info.simps [of d "canon (ctl s)"];
          simp add: http_def Nil ctl_def canon_def split: sum.split)
  next
    case (Cons r rs)
    have IH: "fst (get_thermostat_info d s') = fst (abstracted (get_thermostat_info d) (ctl s'))"
       "transport (snd (get_thermostat_info d s')) =
          fst (snd (abstracted (get_thermostat_info d) (ctl s')))"
       "is_str (access_token (snd (get_thermostat_info d s'))) =
          snd (snd (snd (snd (snd (snd (abstracted (get_thermostat_info d) (ctl s')))))))"
      if "length (transport s') \<le> length rs" for s'
      using less [of s'] that Cons
      by (simp_all add: abstracted_def ctl_components)
    show ?thesis
      by (cases "access_token s";
          simp only: get_thermostat_info.simps [of d s]
                     get_thermostat_info.simps [of d "canon (ctl s)"];
          simp add: http_def Cons case_prod_beta ctl_def canon_def IH
                    abstracted_refresh_mono refresh_tokens_abs refresh_tokens_frame
                    get_thermostat_info_frame
               split: sum.split option.split)
  qed
qed

lemma get_thermostat_info_token:
  "fst (get_thermostat_info d s) = Inr j \<longrightarrow> j \<noteq> JNull \<longrightarrow>
   is_str (access_token (snd (get_thermostat_info d s)))"
proof (induction "length (transport s)" arbitrary: s rule: less_induct)
  case less
  show ?case
  proof (cases "transport s")
    case Nil
    show ?thesis
      by (cases "access_token s"; simp only: get_thermostat_info.simps [of d s];
          simp add: http_def Nil split: sum.split)
  next
    case (Cons r rs)
    have IH: "is_str (access_token (snd (get_thermostat_info d s')))"
      if "length (transport s') \<le> length rs" "fst (get_thermostat_info d s') = Inr j" "j \<noteq> JNull" for s'
      using less [of s'] that Cons by simp
    show ?thesis
      by (cases "access_token s"; simp only: get_thermostat_info.simps [of d s];
          simp add: http_def Cons case_prod_beta IH refresh_tokens_transport_mono
               split: sum.split option.split)
  qed
qed

lemma get_thermostat_info_ctl:
  assumes "ctl t = ctl s"
  shows "fst (get_thermostat_info d t) = fst (get_thermostat_info d s)"
    and "ctl (snd (get_thermostat_info d t)) = ctl (snd (get_thermostat_info d s))"
  using get_thermostat_info_canon [of d s] get_thermostat_info_canon [of d t] assms
  by simp_all

lemma refresh_tokens_ctl:
  assumes "ctl t = ctl s"
  shows "fst (refresh_tokens t) = fst (refresh_tokens s)"
    and "ctl (snd (refresh_tokens t)) = ctl (snd (refresh_tokens s))"
  using refresh_tokens_canon [of s] refresh_tokens_canon [of t] assms
  by simp_all

lemma upsert_all_Nil: "upsert_all c [] = c"
  by (simp add: upsert_all_def)

lemma upsert_all_Cons: "upsert_all c (i # infos) = upsert_all (upsert_spec i c) infos"
  by (simp add: upsert_all_def)

lemma upsert_all_snoc: "upsert_all c (infos @ [i]) = upsert_spec i (upsert_all c infos)"
  by (simp add: upsert_all_def)

lemma dev_id_overwrite: "dev_id (overwrite e i) = dev_id e"
  by (simp add: overwrite_def)

lemma dev_id_foldl_overwrite: "dev_id (foldl overwrite e infos) = dev_id e"
  by (induction infos arbitrary: e) (simp_all add: dev_id_overwrite)

lemma upsert_spec_present:
  "dev_id i \<in> set (map dev_id c) \<Longrightarrow> upsert_spec i c = map (\<lambda>e. overwrite e i) c"
  by (simp add: upsert_spec_def overwrite_def)

lemma upsert_all_present:
  "\<forall>i\<in>set infos. dev_id i \<in> set (map dev_id c) \<Longrightarrow>
   upsert_all c infos = map (\<lambda>e. foldl overwrite e infos) c"
proof (induction infos arbitrary: c)
  case Nil
  then show ?case by (simp add: upsert_all_Nil)
next
  case (Cons i infos)
  have ids: "map dev_id (map (\<lambda>e. overwrite e i) c) = map dev_id c"
    by (simp add: dev_id_overwrite comp_def)
  have "upsert_all (map (\<lambda>e. overwrite e i) c) infos =
          map (\<lambda>e. foldl overwrite e infos) (map (\<lambda>e. overwrite e i) c)"
    using Cons.prems by (intro Cons.IH) (simp add: dev_id_overwrite comp_def)
  then show ?case using Cons.prems
    by (simp add: upsert_all_Cons upsert_spec_present comp_def)
qed

lemma set_upsert_spec:
  "e \<in> set (upsert_spec i c) \<Longrightarrow> e = i \<or> (e \<in> set c \<and> dev_id e \<noteq> dev_id i)"
proof (cases "dev_id i \<in> set (map dev_id c)")
  case True
  assume "e \<in> set (upsert_spec i c)"
  with True obtain e0 where "e0 \<in> set c" "e = (if dev_id e0 = dev_id i then i else e0)"
    by (auto simp: upsert_spec_def)
  then show ?thesis by (cases "dev_id e0 = dev_id i") simp_all
next
  case False
  assume "e \<in> set (upsert_spec i c)"
  with False have "e = i \<or> e \<in> set c" by (auto simp: upsert_spec_def)
  moreover have "dev_id e \<noteq> dev_id i" if "e \<in> set c"
    using that False by (metis image_eqI set_map)
  ultimately show ?thesis by blast
qed

lemma overwrite_same: "dev_id e = dev_id i \<Longrightarrow> overwrite e i = i"
  by (simp add: overwrite_def)

lemma overwrite_other: "dev_id e \<noteq> dev_id i \<Longrightarrow> overwrite e i = e"
  by (simp add: overwrite_def)

lemma upsert_all_fixed:
  "e \<in> set (upsert_all c infos) \<Longrightarrow> foldl overwrite e infos = e"
proof (induction infos arbitrary: e rule: rev_induct)
  case Nil
  then show ?case by simp
next
  case (snoc i infos)
  from snoc.prems have "e = i \<or> (e \<in> set (upsert_all c infos) \<and> dev_id e \<noteq> dev_id i)"
    by (simp add: upsert_all_snoc set_upsert_spec)
  then show ?case
  proof
    assume "e = i"
    then show ?thesis
      by (simp add: overwrite_same dev_id_foldl_overwrite)
  next
    assume a: "e \<in> set (upsert_all c infos) \<and> dev_id e \<noteq> dev_id i"
    with snoc.IH [of e] show ?thesis
      by (simp add: overwrite_other)
  qed
qed

lemma ids_upsert_spec_mono:
  "set (map dev_id c) \<subseteq> set (map dev_id (upsert_spec i c)) \<and>
   dev_id i \<in> set (map dev_id (upsert_spec i c))"
  by (auto simp: dev_id_upsert_spec)

lemma upsert_all_ids_present:
  "i \<in> set infos \<Longrightarrow> dev_id i \<in> set (map dev_id (upsert_all c infos))"
proof (induction infos rule: rev_induct)
  case Nil
  then show ?case by simp
next
  case (snoc x infos)
  then show ?case
    using ids_upsert_spec_mono [of "upsert_all c infos" x]
    by (auto simp: upsert_all_snoc)
qed

lemma upsert_all_idempotent:
  "upsert_all (upsert_all c infos) infos = upsert_all c infos"
proof -
  have "upsert_all (upsert_all c infos) infos =
          map (\<lambda>e. foldl overwrite e infos) (upsert_all c infos)"
    using upsert_all_ids_present [of _ infos c] by (intro upsert_all_present) blast
  also have "\<dots> = upsert_all c infos"
    by (rule map_idI) (rule upsert_all_fixed)
  finally show ?thesis .
qed

lemma ctl_thermostats_update: "ctl (s\<lparr>thermostats := x\<rparr>) = ctl s"
  by (simp add: ctl_def)

lemma ids_ok_upsert:
  "dev_id info = Some tid \<Longrightarrow> ids_ok ths \<Longrightarrow> ids_ok (snd (upsert tid info ths))"
  by (simp add: upsert_ids_ok ids_ok_upsert_spec)

lemma setitem_Inr: "setitem j k v = Inr d \<Longrightarrow> j \<noteq> JNull"
  by (cases j) simp_all

lemma for_thermostats_rerun:
  assumes "for_thermostats items s = (Inr u, s')" and "ctl t = ctl s"
    and "items \<noteq> [] \<longrightarrow> ids_ok (thermostats t)"
  shows "\<exists>infos. fst (for_thermostats items t) = Inr u \<and>
           ctl (snd (for_thermostats items t)) = ctl s' \<and>
           thermostats (snd (for_thermostats items t)) = upsert_all (thermostats t) infos \<and>
           thermostats s' = upsert_all (thermostats s) infos"
  using assms
proof (induction items arbitrary: s t)
  case Nil
  then show ?case
    by (intro exI [of _ "[]"]) (simp add: upsert_all_Nil)
next
  case (Cons it rest)
  from Cons.prems(1) show ?case
  proof (rule for_thermostats_ConsE)
    fix tid fetched nm named
    let ?info = "dict_set ''id'' tid named"
    let ?S = "(snd (get_thermostat_info tid s))\<lparr>thermostats := upsert_spec ?info (thermostats s)\<rparr>"
    let ?T = "(snd (get_thermostat_info tid t))\<lparr>thermostats := upsert_spec ?info (thermostats t)\<rparr>"
    assume a: "getitem it ''id'' = Inr tid"
      and b: "fst (get_thermostat_info tid s) = Inr fetched"
      and c: "getitem it ''name'' = Inr nm"
      and d: "setitem fetched ''name'' nm = Inr named"
      and r: "for_thermostats rest ?S = (Inr u, s')"
    have bt: "fst (get_thermostat_info tid t) = Inr fetched"
      using get_thermostat_info_ctl(1) [OF Cons.prems(2), of tid] b by simp
    have ct: "ctl ?T = ctl ?S"
      using get_thermostat_info_ctl(2) [OF Cons.prems(2), of tid]
      by (simp add: ctl_thermostats_update)
    have ok: "ids_ok (thermostats t)" using Cons.prems(3) by simp
    have up: "upsert tid ?info (thermostats t) = (Inr (), upsert_spec ?info (thermostats t))"
      by (rule upsert_ids_ok [OF ok dev_id_dict_set])
    have step: "for_thermostats (it # rest) t = for_thermostats rest ?T"
      by (simp add: a bt c d up case_prod_beta get_thermostat_info_thermostats)
    have ok': "rest \<noteq> [] \<longrightarrow> ids_ok (thermostats ?T)"
      using ok by (simp add: ids_ok_upsert_spec dev_id_dict_set)
    from Cons.IH [OF r ct ok'] obtain infos where i:
      "fst (for_thermostats rest ?T) = Inr u"
      "ctl (snd (for_thermostats rest ?T)) = ctl s'"
      "thermostats (snd (for_thermostats rest ?T)) = upsert_all (thermostats ?T) infos"
      "thermostats s' = upsert_all (thermostats ?S) infos"
      by blast
    show ?thesis
      using i by (intro exI [of _ "?info # infos"]) (simp add: step upsert_all_Cons del: for_thermostats.simps)
  qed
qed

lemma for_thermostats_token:
  "for_thermostats items s = (Inr u, s') \<Longrightarrow> is_str (access_token s) \<Longrightarrow>
   is_str (access_token s')"
proof (induction items arbitrary: s)
  case Nil
  then show ?case by simp
next
  case (Cons it rest)
  from Cons.prems(1) show ?case
  proof (rule for_thermostats_ConsE)
    fix tid fetched nm named
    let ?info = "dict_set ''id'' tid named"
    let ?S = "(snd (get_thermostat_info tid s))\<lparr>thermostats := upsert_spec ?info (thermostats s)\<rparr>"
    assume b: "fst (get_thermostat_info tid s) = Inr fetched"
      and d: "setitem fetched ''name'' nm = Inr named"
      and r: "for_thermostats rest ?S = (Inr u, s')"
    from get_thermostat_info_token [of tid s fetched] b setitem_Inr [OF d]
    have "is_str (access_token ?S)" by simp
    from Cons.IH [OF r this] show ?thesis .
  qed
qed

lemma for_thermostats_scanned:
  "for_thermostats items s = (Inr u, s') \<Longrightarrow> items \<noteq> [] \<Longrightarrow> ids_ok (thermostats s')"
proof (cases items)
  case Nil
  assume "items \<noteq> []"
  with Nil show ?thesis by simp
next
  case (Cons it rest)
  assume "for_thermostats items s = (Inr u, s')"
  then have "for_thermostats (it # rest) s = (Inr u, s')" using Cons by simp
  then show ?thesis
  proof (rule for_thermostats_ConsE)
    fix tid fetched nm named
    let ?info = "dict_set ''id'' tid named"
    let ?S = "(snd (get_thermostat_info tid s))\<lparr>thermostats := upsert_spec ?info (thermostats s)\<rparr>"
    assume e: "ids_ok (thermostats s)"
      and r: "for_thermostats rest ?S = (Inr u, s')"
    have "ids_ok (thermostats ?S)"
      using e by (simp add: ids_ok_upsert_spec dev_id_dict_set)
    then have "ids_ok (thermostats (snd (for_thermostats rest ?S)))"
      by (rule for_thermostats_cache [where P = ids_ok, rotated]) (rule ids_ok_upsert)
    with r show ?thesis by simp
  qed
qed

lemma ctl_eq_iff:
  "ctl t = ctl s \<longleftrightarrow>
     transport t = transport s \<and> user_email t = user_email s \<and>
     user_password t = user_password s \<and> file_based_config t = file_based_config s \<and>
     config_filename t = config_filename s \<and>
     is_str (access_token t) = is_str (access_token s)"
  by (auto simp: ctl_def)

lemma after_get_frame:
  "transport (after_get s) = tl (transport s)"
  "thermostats (after_get s) = thermostats s"
  "user_email (after_get s) = user_email s"
  "user_password (after_get s) = user_password s"
  "file_based_config (after_get s) = file_based_config s"
  "config_filename (after_get s) = config_filename s"
  "access_token (after_get s) = access_token s"
  by (simp_all add: after_get_def http_def split: list.split)

lemma get_thermostats_ok:
  assumes "is_str (access_token s)" and "transport s = Some r # rs" and "status_code r = 200"
    and "resp_json r = Inr j" and "py_iter j = Inr items"
  shows "get_thermostats s =
     (case fst (for_thermostats items ((after_get s)\<lparr>authenticated := True, thermostatlist := j\<rparr>)) of
        Inl e \<Rightarrow> Inl e
      | Inr u \<Rightarrow> Inr (Some (thermostats (snd (for_thermostats items
                     ((after_get s)\<lparr>authenticated := True, thermostatlist := j\<rparr>))))),
      snd (for_thermostats items ((after_get s)\<lparr>authenticated := True, thermostatlist := j\<rparr>)))"
  using assms
  by (cases "access_token s")
     (simp_all add: get_thermostats.simps [of s] http_def after_get_def case_prod_beta
               split: sum.split)

lemma get_thermostats_again:
  assumes "is_str (access_token s)" and "transport s = Some r # rs" and "status_code r \<noteq> 200"
    and "fst (refresh_tokens ((after_get s)\<lparr>authenticated := False\<rparr>)) = Inr (Some True)"
  shows "get_thermostats s =
           get_thermostats (snd (refresh_tokens ((after_get s)\<lparr>authenticated := False\<rparr>)))"
  using assms
  by (cases "access_token s")
     (simp_all add: get_thermostats.simps [of s] http_def after_get_def case_prod_beta
               split: sum.split)

lemma get_thermostats_SomeE:
  assumes "fst (get_thermostats s) = Inr (Some c)"
  obtains (ok) r rs j items where
      "is_str (access_token s)" "transport s = Some r # rs" "status_code r = 200"
      "resp_json r = Inr j" "py_iter j = Inr items"
      "fst (for_thermostats items ((after_get s)\<lparr>authenticated := True, thermostatlist := j\<rparr>))
         = Inr ()"
    | (again) r rs where
      "is_str (access_token s)" "transport s = Some r # rs" "status_code r \<noteq> 200"
      "fst (refresh_tokens ((after_get s)\<lparr>authenticated := False\<rparr>)) = Inr (Some True)"
proof (cases "access_token s")
  case (JStr a)
  show ?thesis
  proof (cases "transport s")
    case Nil
    with assms JStr show ?thesis
      by (simp add: get_thermostats.simps [of s] http_def)
  next
    case (Cons x rs)
    show ?thesis
    proof (cases x)
      case None
      with assms JStr Cons show ?thesis
        by (simp add: get_thermostats.simps [of s] http_def)
    next
      case (Some r)
      show ?thesis
      proof (cases "status_code r = 200")
        case True
        with assms JStr Cons Some obtain j items where
          "resp_json r = Inr j" "py_iter j = Inr items"
          "fst (for_thermostats items
                  ((after_get s)\<lparr>authenticated := True, thermostatlist := j\<rparr>)) = Inr ()"
          by (auto simp add: get_thermostats.simps [of s] http_def after_get_def case_prod_beta
                   split: sum.splits)
        with JStr Cons Some True show ?thesis
          by (intro ok [of r rs j items]) simp_all
      next
        case False
        with assms JStr Cons Some have
          "fst (refresh_tokens ((after_get s)\<lparr>authenticated := False\<rparr>)) = Inr (Some True)"
          by (auto simp add: get_thermostats.simps [of s] http_def after_get_def case_prod_beta
                   split: sum.splits if_splits)
        with JStr Cons Some False show ?thesis
          by (intro again [of r rs]) simp_all
      qed
    qed
  qed
qed (use assms in \<open>simp_all add: get_thermostats.simps [of s]\<close>)

lemma for_thermostats_frame:
  "user_email (snd (for_thermostats items s)) = user_email s"
  "user_password (snd (for_thermostats items s)) = user_password s"
  "file_based_config (snd (for_thermostats items s)) = file_based_config s"
  "config_filename (snd (for_thermostats items s)) = config_filename s"
  by (induction items arbitrary: s;
      simp add: case_prod_beta get_thermostat_info_frame split: sum.split)+

lemma for_thermostats_token_snd:
  "fst (for_thermostats items s) = Inr () \<Longrightarrow> is_str (access_token s) \<Longrightarrow>
   is_str (access_token (snd (for_thermostats items s)))"
  using for_thermostats_token [of items s "()" "snd (for_thermostats items s)"]
  by (cases "for_thermostats items s") simp

lemma get_thermostats_settings:
  "fst (get_thermostats s) = Inr (Some c) \<Longrightarrow>
   user_email (snd (get_thermostats s)) = user_email s \<and>
   user_password (snd (get_thermostats s)) = user_password s \<and>
   file_based_config (snd (get_thermostats s)) = file_based_config s \<and>
   config_filename (snd (get_thermostats s)) = config_filename s \<and>
   is_str (access_token (snd (get_thermostats s))) \<and> is_str (access_token s)"
proof (induction "length (transport s)" arbitrary: s rule: less_induct)
  case less
  from less.prems show ?case
  proof (cases rule: get_thermostats_SomeE)
    case (ok r rs j items)
    show ?thesis
      using ok(1,6)
      by (simp add: get_thermostats_ok [OF ok(1-5)] for_thermostats_frame after_get_frame
                    for_thermostats_token_snd)
  next
    case (again r rs)
    let ?S = "snd (refresh_tokens ((after_get s)\<lparr>authenticated := False\<rparr>))"
    have eq: "get_thermostats s = get_thermostats ?S"
      by (rule get_thermostats_again [OF again])
    have "length (transport ?S) \<le> length rs"
      by (rule refresh_tokens_transport_mono) (simp add: after_get_frame again(2))
    then have "length (transport ?S) < length (transport s)"
      using again(2) by simp
    from less.hyps [OF this] less.prems eq again(1) show ?thesis
      by (simp add: refresh_tokens_frame after_get_frame)
  qed
qed

lemma get_thermostats_rerun:
  "fst (get_thermostats s) = Inr (Some c) \<Longrightarrow> ctl t = ctl s \<Longrightarrow> thermostats t = c \<Longrightarrow>
   \<exists>infos. c = upsert_all (thermostats s) infos \<and>
           fst (get_thermostats t) = Inr (Some (upsert_all c infos)) \<and>
           thermostats (snd (get_thermostats t)) = upsert_all c infos"
proof (induction "length (transport s)" arbitrary: s t rule: less_induct)
  case less
  note same = less.prems(2) [unfolded ctl_eq_iff]
  from less.prems(1) show ?case
  proof (cases rule: get_thermostats_SomeE)
    case (ok r rs j items)
    let ?S = "(after_get s)\<lparr>authenticated := True, thermostatlist := j\<rparr>"
    let ?T = "(after_get t)\<lparr>authenticated := True, thermostatlist := j\<rparr>"
    have tok: "is_str (access_token t)" and tr: "transport t = Some r # rs"
      using same ok(1,2) by simp_all
    have run: "for_thermostats items ?S = (Inr (), snd (for_thermostats items ?S))"
      using ok(6) by (cases "for_thermostats items ?S") simp
    have c: "c = thermostats (snd (for_thermostats items ?S))"
      using less.prems(1) ok(6) by (simp add: get_thermostats_ok [OF ok(1-5)])
    have ctl: "ctl ?T = ctl ?S"
      using same by (simp add: ctl_def after_get_frame)
    have "items \<noteq> [] \<longrightarrow> ids_ok (thermostats ?T)"
      using for_thermostats_scanned [OF run] c less.prems(3) by (simp add: after_get_frame)
    from for_thermostats_rerun [OF run ctl this] obtain infos where i:
      "fst (for_thermostats items ?T) = Inr ()"
      "thermostats (snd (for_thermostats items ?T)) = upsert_all (thermostats ?T) infos"
      "thermostats (snd (for_thermostats items ?S)) = upsert_all (thermostats ?S) infos"
      by blast
    show ?thesis
      using i c less.prems(3)
      by (intro exI [of _ infos])
         (simp add: get_thermostats_ok [OF tok tr ok(3-5)] after_get_frame)
  next
    case (again r rs)
    let ?S = "snd (refresh_tokens ((after_get s)\<lparr>authenticated := False\<rparr>))"
    let ?T = "snd (refresh_tokens ((after_get t)\<lparr>authenticated := False\<rparr>))"
    have tok: "is_str (access_token t)" and tr: "transport t = Some r # rs"
      using same again(1,2) by simp_all
    have ctl0: "ctl ((after_get t)\<lparr>authenticated := False\<rparr>) =
                ctl ((after_get s)\<lparr>authenticated := False\<rparr>)"
      using same by (simp add: ctl_def after_get_frame)
    note r = refresh_tokens_ctl [OF ctl0]
    have eqs: "get_thermostats s = get_thermostats ?S"
      by (rule get_thermostats_again [OF again])
    have eqt: "get_thermostats t = get_thermostats ?T"
      using r(1) again(4) by (intro get_thermostats_again [OF tok tr again(3)]) simp
    have "length (transport ?S) \<le> length rs"
      by (rule refresh_tokens_transport_mono) (simp add: after_get_frame again(2))
    then have lt: "length (transport ?S) < length (transport s)"
      using again(2) by simp
    have "\<exists>infos. c = upsert_all (thermostats ?S) infos \<and>
           fst (get_thermostats ?T) = Inr (Some (upsert_all c infos)) \<and>
           thermostats (snd (get_thermostats ?T)) = upsert_all c infos"
      using less.prems(1,3) eqs
      by (intro less.hyps [OF lt _ r(2)]) (simp_all add: refresh_tokens_frame after_get_frame)
    then show ?thesis
      by (simp add: eqt refresh_tokens_frame after_get_frame)
  qed
qed

lemma get_thermostats_twice:
  assumes "fst (get_thermostats s) = Inr (Some c)"
  shows "fst (get_thermostats ((snd (get_thermostats s))\<lparr>transport := transport s\<rparr>)) =
           Inr (Some c) \<and>
         thermostats (snd (get_thermostats
            ((snd (get_thermostats s))\<lparr>transport := transport s\<rparr>))) = c"
proof -
  let ?t = "(snd (get_thermostats s))\<lparr>transport := transport s\<rparr>"
  have "ctl ?t = ctl s"
    using get_thermostats_settings [OF assms] by (simp add: ctl_def)
  moreover have "thermostats ?t = c"
    using get_thermostats_ids [of s c] assms by simp
  ultimately obtain infos where
    "c = upsert_all (thermostats s) infos"
    "fst (get_thermostats ?t) = Inr (Some (upsert_all c infos))"
    "thermostats (snd (get_thermostats ?t)) = upsert_all c infos"
    using get_thermostats_rerun [OF assms] by blast
  then show ?thesis
    using upsert_all_idempotent [of "thermostats s" infos] by simp
qed

text \<open>
  Claim C4. The remote data is unchanged when the second call is answered as the first
  was: the session left by the first call meets the same answers of the server again.
  If the first call returns the cache, the second call returns the same cache and leaves
  it stored, entry by entry and field by field, also when the first call refreshed the
  access token on its way. And upserting the same payloads a second time changes nothing.
\<close>

theorem fetch_idempotent:
  "(fst (get_thermostats s) = Inr (Some c) \<longrightarrow>
      c = thermostats (snd (get_thermostats s)) \<and>
      fst (get_thermostats ((snd (get_thermostats s))\<lparr>transport := transport s\<rparr>)) =
        Inr (Some c) \<and>
      thermostats (snd (get_thermostats
         ((snd (get_thermostats s))\<lparr>transport := transport s\<rparr>))) = c) \<and>
   upsert_all (upsert_all cache infos) infos = upsert_all cache infos"
proof (intro conjI impI)
  assume a: "fst (get_thermostats s) = Inr (Some c)"
  from get_thermostats_ids [of s c] a
  show "c = thermostats (snd (get_thermostats s))" by simp
  from get_thermostats_twice [OF a]
  show "fst (get_thermostats ((snd (get_thermostats s))\<lparr>transport := transport s\<rparr>)) =
        Inr (Some c)"
    and "thermostats (snd (get_thermostats
         ((snd (get_thermostats s))\<lparr>transport := transport s\<rparr>))) = c" by simp_all
next
  show "upsert_all (upsert_all cache infos) infos = upsert_all cache infos"
    by (rule upsert_all_idempotent)
qed

lemma expired_fetch:
  "thermostats expired_session = [demo_thermostat]"
  "fst (get_thermostats expired_session) =
     Inr (Some [[(''cspHome'', JInt 80), (''name'', JStr ''Lobby''), (''id'', JStr ''dev1'')],
                [(''hspHome'', JInt 70), (''name'', JStr ''Attic''), (''id'', JStr ''dev2'')]])"
  "access_token expired_session = JStr ''tok''"
  "access_token (snd (get_thermostats expired_session)) = JStr ''tok2''"
  by code_simp+

theorem fetch_idempotent_witness:
  "thermostats expired_session = [demo_thermostat] \<and>
   fst (get_thermostats expired_session) =
     Inr (Some [[(''cspHome'', JInt 80), (''name'', JStr ''Lobby''), (''id'', JStr ''dev1'')],
                [(''hspHome'', JInt 70), (''name'', JStr ''Attic''), (''id'', JStr ''dev2'')]]) \<and>
   access_token expired_session = JStr ''tok'' \<and>
   access_token (snd (get_thermostats expired_session)) = JStr ''tok2'' \<and>
   fst (get_thermostats
          ((snd (get_thermostats expired_session))\<lparr>transport := transport expired_session\<rparr>)) =
     Inr (Some [[(''cspHome'', JInt 80), (''name'', JStr ''Lobby''), (''id'', JStr ''dev1'')],
                [(''hspHome'', JInt 70), (''name'', JStr ''Attic''), (''id'', JStr ''dev2'')]]) \<and>
   thermostats (snd (get_thermostats
      ((snd (get_thermostats expired_session))\<lparr>transport := transport expired_session\<rparr>))) =
     [[(''cspHome'', JInt 80), (''name'', JStr ''Lobby''), (''id'', JStr ''dev1'')],
      [(''hspHome'', JInt 70), (''name'', JStr ''Attic''), (''id'', JStr ''dev2'')]]"
  using expired_fetch
    fetch_idempotent [of expired_session
       "[[(''cspHome'', JInt 80), (''name'', JStr ''Lobby''), (''id'', JStr ''dev1'')],
         [(''hspHome'', JInt 70), (''name'', JStr ''Attic''), (''id'', JStr ''dev2'')]]"]
  by (simp only:)

end
